theory Spec2Isabelle
  imports Complex_Main
begin

section \<open>Data model\<close>

text \<open>
  A quaternion is the 4-tuple \<open>(w, x, y, z)\<close> of its components; the constructor is the
  source's \<^verbatim>\<open>quaternion(w, x, y, z)\<close>. The type of the components is a parameter of the
  data model. The package works on IEEE doubles, and this development has two readings
  of them:

  \<^item> the type \<open>double\<close> below, with the signed zeros, the infinities, NaN, overflow and an
    arbitrary rounding, for the functions whose behaviour at those values is in question
    (the rotation matrix, the Euler angles, the vector rotation, the tolerant
    comparison);

  \<^item> the real numbers, without rounding, for the algebra of the conversion from a rotation
    matrix and for the axis-angle conversions, whose arithmetic is in the compiled
    extension.

  The functions that only move components between arrays work for both.
\<close>

datatype 'a quaternion = quaternion (q_w: 'a) (q_x: 'a) (q_y: 'a) (q_z: 'a)

text \<open>The module constants \<^verbatim>\<open>zero\<close> and \<^verbatim>\<open>one\<close>.\<close>

definition zero :: "real quaternion" where
  "zero = quaternion 0 0 0 0"

definition one :: "real quaternion" where
  "one = quaternion 1 0 0 0"

text \<open>The storage of one quaternion: four consecutive doubles, in the order w, x, y, z.\<close>

definition components :: "'a quaternion \<Rightarrow> 'a list" where
  "components q = [q_w q, q_x q, q_y q, q_z q]"

text \<open>
  An N-dimensional array is its shape and its elements in C (row-major) order.

  An array of quaternions also has a layout in memory, which decides whether the host
  can reinterpret its buffer in place. Two layouts are told apart: \<open>Contiguous\<close>, the
  elements adjacent in memory in C order (what every function of the host and of this
  package that creates an array returns), and \<open>Strided\<close>, the elements not adjacent: a
  view of another array taken with a step, such as \<^verbatim>\<open>b[::2]\<close>, with at least one
  dimension and at least two elements. Arrays in Fortran order are not part of the
  model.

  A value handed to the conversion functions is either a quaternion scalar or an array
  of quaternions (which may be zero-dimensional); the source tells the two apart by
  \<^verbatim>\<open>isinstance(q, np.ndarray)\<close>.
\<close>

record 'a ndarray =
  shape :: "nat list"
  flat :: "'a list"

datatype layout = Contiguous | Strided

datatype 'a qvalue = Scalar "'a quaternion" | Array layout "'a quaternion ndarray"

text \<open>\<^verbatim>\<open>q.shape\<close>, the elements and the layout of a value, scalar or array.\<close>

fun shape_of :: "'a qvalue \<Rightarrow> nat list" where
  "shape_of (Scalar q) = []"
| "shape_of (Array l a) = shape a"

fun elements :: "'a qvalue \<Rightarrow> 'a quaternion list" where
  "elements (Scalar q) = [q]"
| "elements (Array l a) = flat a"

fun layout_of :: "'a qvalue \<Rightarrow> layout" where
  "layout_of (Scalar q) = Contiguous"
| "layout_of (Array l a) = l"

datatype error = ZeroDivisionError | ValueError | IndexError | LinAlgError | OverflowError

section \<open>Host array operations\<close>

text \<open>
  \<^verbatim>\<open>np.atleast_1d\<close>: a scalar or zero-dimensional array becomes an array of shape \<open>(1,)\<close>;
  an array of at least one dimension is returned as it is, with its layout.
\<close>

fun atleast_1d :: "'a qvalue \<Rightarrow> layout \<times> 'a quaternion ndarray" where
  "atleast_1d (Scalar q) = (Contiguous, \<lparr>shape = [1], flat = [q]\<rparr>)"
| "atleast_1d (Array l a) = (l, if shape a = [] then a\<lparr>shape := [1]\<rparr> else a)"

text \<open>
  \<^verbatim>\<open>np.ascontiguousarray(a, dtype=np.float)\<close>: the result has at least one dimension and
  its elements are adjacent in memory, whatever the layout of the argument was. So an
  array of doubles needs no layout here.
\<close>

definition ascontiguousarray :: "'a ndarray \<Rightarrow> 'a ndarray" where
  "ascontiguousarray a = (if shape a = [] then a\<lparr>shape := [1]\<rparr> else a)"

text \<open>
  \<^verbatim>\<open>a.reshape(s)\<close> keeps the elements and changes the shape; it raises a value error when
  the new shape does not have the size of the old one.
\<close>

definition reshape :: "'a ndarray \<Rightarrow> nat list \<Rightarrow> error + 'a ndarray" where
  "reshape a s = (if prod_list s = prod_list (shape a) then Inr (a\<lparr>shape := s\<rparr>) else Inl ValueError)"

text \<open>
  \<^verbatim>\<open>a.view(np.float)\<close> on an array of quaternions (at least one-dimensional): the last axis
  becomes four times as long and every quaternion is read as its four doubles. The
  item size changes, and the host raises a value error when the elements are not
  adjacent in memory.
\<close>

fun view_float :: "layout \<Rightarrow> 'a quaternion ndarray \<Rightarrow> error + 'a ndarray" where
  "view_float Contiguous a =
     Inr \<lparr>shape = butlast (shape a) @ [4 * last (shape a)], flat = concat (map components (flat a))\<rparr>"
| "view_float Strided a = Inl ValueError"

text \<open>
  \<^verbatim>\<open>a.view(np.quaternion)\<close> on a contiguous array of doubles: four consecutive doubles are
  read as one quaternion. It raises a value error unless the length of the last axis is a
  multiple of four.
\<close>

fun quads :: "'a list \<Rightarrow> 'a quaternion list" where
  "quads (a # b # c # d # rest) = quaternion a b c d # quads rest"
| "quads _ = []"

definition view_quaternion :: "'a ndarray \<Rightarrow> error + 'a quaternion ndarray" where
  "view_quaternion a =
     (if last (shape a) mod 4 = 0
      then Inr \<lparr>shape = butlast (shape a) @ [last (shape a) div 4], flat = quads (flat a)\<rparr>
      else Inl ValueError)"

text \<open>\<^verbatim>\<open>a.copy()\<close>: the same elements in fresh storage.\<close>

definition copy :: "'a ndarray \<Rightarrow> 'a ndarray" where
  "copy a = a"

text \<open>
  The rows of the last axis, of length \<open>n\<close>, and the indexing \<^verbatim>\<open>a[..., k]\<close>, which takes
  entry \<open>k\<close> of every row (\<open>k\<close> is below the length of the last axis at every use).
\<close>

fun rows :: "nat \<Rightarrow> 'a list \<Rightarrow> 'a list list" where
  "rows n xs = (if n = 0 \<or> xs = [] then [] else take n xs # rows n (drop n xs))"

definition ellipsis_at :: "'a ndarray \<Rightarrow> nat \<Rightarrow> 'a list" where
  "ellipsis_at a k = map (\<lambda>r. r ! k) (rows (last (shape a)) (flat a))"

section \<open>The memory view bridge\<close>

text \<open>
  \<^verbatim>\<open>as_float_array(a)\<close>. The assertion on the dtype is the type of the argument here. The
  test \<^verbatim>\<open>a.shape == ()\<close> comes after \<^verbatim>\<open>np.atleast_1d\<close>, as in the source. The view is taken
  of the array itself: there is no copy, and an error of the view is the caller's.
\<close>

definition as_float_array :: "'a qvalue \<Rightarrow> error + 'a ndarray" where
  "as_float_array a0 =
     (case atleast_1d a0 of (l, a) \<Rightarrow>
        if shape a = [] then Inr \<lparr>shape = [4], flat = concat (map components (flat a))\<rparr>
        else
          (case view_float l a of
             Inl e \<Rightarrow> Inl e
           | Inr av \<Rightarrow> reshape av (shape a @ [4])))"

text \<open>
  \<^verbatim>\<open>as_quat_array(a)\<close>. An array of shape \<open>(4,)\<close> gives one quaternion scalar. Otherwise the
  array is viewed as quaternions; when the view raises a value error the source copies
  the array and views the copy, and an error of that second view is the caller's. The
  result is a view of a contiguous array, so it is contiguous.
\<close>

definition as_quat_array :: "'a ndarray \<Rightarrow> error + 'a qvalue" where
  "as_quat_array a0 =
     (let a = ascontiguousarray a0 in
      if shape a = [4] then
        (case flat a of
           [a0, a1, a2, a3] \<Rightarrow> Inr (Scalar (quaternion a0 a1 a2 a3))
         | _ \<Rightarrow> Inl IndexError)
      else
        (case (case view_quaternion a of
                 Inl ValueError \<Rightarrow> view_quaternion (copy a)
               | r \<Rightarrow> r) of
           Inl e \<Rightarrow> Inl e
         | Inr av \<Rightarrow>
             (if last (shape a) = 4
              then map_sum id (Array Contiguous) (reshape av (butlast (shape a)))
              else map_sum id (Array Contiguous)
                     (reshape av (butlast (shape a) @ [last (shape a) div 4])))))"

section \<open>Doubles\<close>

text \<open>
  An IEEE double is a finite number (given by the real number it stands for, \<open>Finite 0\<close>
  being the positive zero), the negative zero, one of the two infinities, or NaN.
\<close>

datatype double = Finite real | NegZero | PInf | NInf | NaN

fun isnan :: "double \<Rightarrow> bool" where
  "isnan NaN = True"
| "isnan _ = False"

fun isinf :: "double \<Rightarrow> bool" where
  "isinf PInf = True"
| "isinf NInf = True"
| "isinf _ = False"

fun is_zero :: "double \<Rightarrow> bool" where
  "is_zero (Finite a) = (a = 0)"
| "is_zero NegZero = True"
| "is_zero _ = False"

text \<open>The sign bit, and the real number of a finite double.\<close>

fun signbit :: "double \<Rightarrow> bool" where
  "signbit (Finite a) = (a < 0)"
| "signbit NegZero = True"
| "signbit NInf = True"
| "signbit _ = False"

fun value_of :: "double \<Rightarrow> real" where
  "value_of (Finite a) = a"
| "value_of _ = 0"

definition signed_zero :: "bool \<Rightarrow> double" where
  "signed_zero negative = (if negative then NegZero else Finite 0)"

definition signed_inf :: "bool \<Rightarrow> double" where
  "signed_inf negative = (if negative then NInf else PInf)"

text \<open>
  The result of an operation on finite doubles is its exact result rounded to a double.
  The rounding of the host is the parameter \<open>rnd\<close> of every operation, a function on the
  real numbers about which nothing is assumed. A rounded value beyond the largest double
  is an infinity (overflow), and a nonzero exact result that rounds to zero keeps its
  sign (underflow).
\<close>

definition max_double :: real where
  "max_double = (2 - 1 / 2 ^ 52) * 2 ^ 1023"

definition rounded :: "(real \<Rightarrow> real) \<Rightarrow> real \<Rightarrow> double" where
  "rounded rnd r =
     (if r = 0 then Finite 0
      else if max_double < rnd r then PInf
      else if rnd r < - max_double then NInf
      else if rnd r = 0 then signed_zero (r < 0)
      else Finite (rnd r))"

text \<open>The unary minus and the absolute value change the sign bit only.\<close>

fun fneg :: "double \<Rightarrow> double" where
  "fneg (Finite a) = (if a = 0 then NegZero else Finite (- a))"
| "fneg NegZero = Finite 0"
| "fneg PInf = NInf"
| "fneg NInf = PInf"
| "fneg NaN = NaN"

fun fabs :: "double \<Rightarrow> double" where
  "fabs (Finite a) = Finite \<bar>a\<bar>"
| "fabs NegZero = Finite 0"
| "fabs PInf = PInf"
| "fabs NInf = PInf"
| "fabs NaN = NaN"

text \<open>
  The sum. Infinities of opposite sign give NaN. An exact sum zero is the positive zero,
  unless both terms are negative zeros.
\<close>

definition fadd :: "(real \<Rightarrow> real) \<Rightarrow> double \<Rightarrow> double \<Rightarrow> double" where
  "fadd rnd a b =
     (if isnan a \<or> isnan b then NaN
      else if isinf a \<and> isinf b then (if a = b then a else NaN)
      else if isinf a then a
      else if isinf b then b
      else if value_of a + value_of b = 0 then signed_zero (signbit a \<and> signbit b)
      else rounded rnd (value_of a + value_of b))"

definition fsub :: "(real \<Rightarrow> real) \<Rightarrow> double \<Rightarrow> double \<Rightarrow> double" where
  "fsub rnd a b = fadd rnd a (fneg b)"

text \<open>
  The product and the quotient: the sign of the result is the exclusive or of the signs.
  Zero times infinity, infinity by infinity and zero by zero are NaN; a nonzero number
  by zero is an infinity. This is the division of the host's arrays, which raises no
  error.
\<close>

definition fmul :: "(real \<Rightarrow> real) \<Rightarrow> double \<Rightarrow> double \<Rightarrow> double" where
  "fmul rnd a b =
     (if isnan a \<or> isnan b then NaN
      else if (isinf a \<and> is_zero b) \<or> (is_zero a \<and> isinf b) then NaN
      else if isinf a \<or> isinf b then signed_inf (signbit a \<noteq> signbit b)
      else if is_zero a \<or> is_zero b then signed_zero (signbit a \<noteq> signbit b)
      else rounded rnd (value_of a * value_of b))"

definition fdiv :: "(real \<Rightarrow> real) \<Rightarrow> double \<Rightarrow> double \<Rightarrow> double" where
  "fdiv rnd a b =
     (if isnan a \<or> isnan b then NaN
      else if (isinf a \<and> isinf b) \<or> (is_zero a \<and> is_zero b) then NaN
      else if isinf a \<or> is_zero b then signed_inf (signbit a \<noteq> signbit b)
      else if isinf b \<or> is_zero a then signed_zero (signbit a \<noteq> signbit b)
      else rounded rnd (value_of a / value_of b))"

text \<open>
  The comparisons \<^verbatim>\<open>==\<close>, \<^verbatim>\<open><\<close> and \<^verbatim>\<open><=\<close>: false as soon as one side is NaN; the two zeros
  are equal.
\<close>

definition feq :: "double \<Rightarrow> double \<Rightarrow> bool" where
  "feq a b \<longleftrightarrow> \<not> isnan a \<and> \<not> isnan b \<and> (a = b \<or> (is_zero a \<and> is_zero b))"

definition flt :: "double \<Rightarrow> double \<Rightarrow> bool" where
  "flt a b \<longleftrightarrow>
     (if isnan a \<or> isnan b then False
      else if a = PInf \<or> b = NInf then False
      else if a = NInf \<or> b = PInf then True
      else value_of a < value_of b)"


text \<open>
  The square root: NaN for a negative number, and each zero is its own root. The arc
  cosine: NaN outside \<open>[-1, 1]\<close>.
\<close>

definition fsqrt :: "(real \<Rightarrow> real) \<Rightarrow> double \<Rightarrow> double" where
  "fsqrt rnd a =
     (if isnan a then NaN
      else if is_zero a then a
      else if signbit a then NaN
      else if a = PInf then PInf
      else rounded rnd (sqrt (value_of a)))"

definition farccos :: "(real \<Rightarrow> real) \<Rightarrow> double \<Rightarrow> double" where
  "farccos rnd a =
     (if isnan a \<or> isinf a then NaN
      else if 1 < \<bar>value_of a\<bar> then NaN
      else rounded rnd (arccos (value_of a)))"

text \<open>
  \<^verbatim>\<open>np.arctan2(y, x)\<close>, the angle of the point \<open>(x, y)\<close>, with the special values of the C
  library: the result has the sign of \<open>y\<close>, also when \<open>y\<close> is a zero; for a zero \<open>y\<close> it
  is a zero when \<open>x\<close> has a clear sign bit and \<open>\<plusminus>\<pi>\<close> when \<open>x\<close> has the sign bit set (the
  negative zero included).
\<close>

definition angle :: "real \<Rightarrow> real \<Rightarrow> real" where
  "angle y x =
     (if 0 < x then arctan (y / x)
      else if 0 < y then arctan (y / x) + pi
      else arctan (y / x) - pi)"

definition with_sign :: "bool \<Rightarrow> double \<Rightarrow> double" where
  "with_sign negative a = (if negative then fneg a else a)"

definition farctan2 :: "(real \<Rightarrow> real) \<Rightarrow> double \<Rightarrow> double \<Rightarrow> double" where
  "farctan2 rnd y x =
     (if isnan y \<or> isnan x then NaN
      else if isinf y then
        with_sign (signbit y)
          (rounded rnd (if x = PInf then pi / 4 else if x = NInf then 3 * pi / 4 else pi / 2))
      else if x = PInf then signed_zero (signbit y)
      else if x = NInf then with_sign (signbit y) (rounded rnd pi)
      else if is_zero y then
        (if signbit x then with_sign (signbit y) (rounded rnd pi) else signed_zero (signbit y))
      else if is_zero x then with_sign (signbit y) (rounded rnd (pi / 2))
      else rounded rnd (angle (value_of y) (value_of x)))"

text \<open>
  The arithmetic of Python's own floats, which the source uses on the components of a
  quaternion scalar, differs from that of the host's arrays in two places. The power
  \<^verbatim>\<open>x**2\<close> raises an overflow error when the square of a number that is not infinite is
  an infinity (\<open>overflows\<close>), and the division raises a zero-division error for a divisor
  zero. The sum, the difference and the product raise nothing.
\<close>

definition overflows :: "(real \<Rightarrow> real) \<Rightarrow> double \<Rightarrow> bool" where
  "overflows rnd a \<longleftrightarrow> \<not> isinf a \<and> isinf (fmul rnd a a)"

definition py_pow2 :: "(real \<Rightarrow> real) \<Rightarrow> double \<Rightarrow> error + double" where
  "py_pow2 rnd a = (if overflows rnd a then Inl OverflowError else Inr (fmul rnd a a))"

definition py_div :: "(real \<Rightarrow> real) \<Rightarrow> double \<Rightarrow> double \<Rightarrow> error + double" where
  "py_div rnd a b = (if is_zero b then Inl ZeroDivisionError else Inr (fdiv rnd a b))"

text \<open>
  A binary operation on two operands that may raise: the left operand is evaluated
  first. And a list display: the entries are evaluated from left to right.
\<close>

fun lift2 :: "('a \<Rightarrow> 'b \<Rightarrow> 'c) \<Rightarrow> error + 'a \<Rightarrow> error + 'b \<Rightarrow> error + 'c" where
  "lift2 f (Inl e) _ = Inl e"
| "lift2 f (Inr a) (Inl e) = Inl e"
| "lift2 f (Inr a) (Inr b) = Inr (f a b)"

fun bind2 :: "('a \<Rightarrow> 'b \<Rightarrow> error + 'c) \<Rightarrow> error + 'a \<Rightarrow> error + 'b \<Rightarrow> error + 'c" where
  "bind2 f (Inl e) _ = Inl e"
| "bind2 f (Inr a) (Inl e) = Inl e"
| "bind2 f (Inr a) (Inr b) = f a b"

fun collect :: "(error + 'a) list \<Rightarrow> error + 'a list" where
  "collect [] = Inr []"
| "collect (Inl e # rs) = Inl e"
| "collect (Inr v # rs) = (case collect rs of Inl e \<Rightarrow> Inl e | Inr vs \<Rightarrow> Inr (v # vs))"

section \<open>Quaternion to rotation matrix\<close>

text \<open>
  Modelled from the spec: \<^verbatim>\<open>q.norm()\<close> and \<^verbatim>\<open>np.norm\<close> belong to the compiled extension,
  which is not among the sources at hand. The specification gives it as the squared
  norm \<open>w\<^sup>2 + x\<^sup>2 + y\<^sup>2 + z\<^sup>2\<close>; here it is computed in double arithmetic, from left to
  right, and raises nothing.
\<close>

definition qnorm :: "(real \<Rightarrow> real) \<Rightarrow> double quaternion \<Rightarrow> double" where
  "qnorm rnd q =
     fadd rnd (fadd rnd (fadd rnd (fmul rnd (q_w q) (q_w q)) (fmul rnd (q_x q) (q_x q)))
                 (fmul rnd (q_y q) (q_y q)))
       (fmul rnd (q_z q) (q_z q))"

text \<open>
  \<^verbatim>\<open>as_rotation_matrix(q)\<close>. The constant \<^verbatim>\<open>_eps\<close> is imported from the compiled extension
  and is a parameter here. A quaternion scalar takes the first branch, in Python's float
  arithmetic: the diagonal entries are \<^verbatim>\<open>1 - 2*(a**2 + b**2)\<close> and the others
  \<^verbatim>\<open>2*(a*b + c*d)\<close> or \<^verbatim>\<open>2*(a*b - c*d)\<close>, each with \<^verbatim>\<open>/n\<close> after the product by two when
  the quaternion is not normalised. Every array, also a zero-dimensional one, takes the
  second branch, where the nine entries are computed for all elements at once, in the
  arithmetic of the host's arrays, from the float view of the array.
\<close>

definition as_rotation_matrix ::
  "(real \<Rightarrow> real) \<Rightarrow> double \<Rightarrow> double qvalue \<Rightarrow> error + double ndarray" where
  "as_rotation_matrix rnd eps q0 =
     (case q0 of
        Scalar q \<Rightarrow>
          (let n = qnorm rnd q;
               w = q_w q; x = q_x q; y = q_y q; z = q_z q;
               squares = (\<lambda>a b.
                  lift2 (fmul rnd) (Inr (Finite 2))
                    (lift2 (fadd rnd) (py_pow2 rnd a) (py_pow2 rnd b)));
               products = (\<lambda>pm a b c d.
                  fmul rnd (Finite 2) (pm (fmul rnd a b) (fmul rnd c d)));
               diag = (\<lambda>a b. lift2 (fsub rnd) (Inr (Finite 1)) (squares a b));
               off = (\<lambda>pm a b c d. Inr (products pm a b c d));
               diag_by_n = (\<lambda>a b.
                  lift2 (fsub rnd) (Inr (Finite 1)) (bind2 (py_div rnd) (squares a b) (Inr n)));
               off_by_n = (\<lambda>pm a b c d. py_div rnd (products pm a b c d) n)
           in
           if feq n (Finite 0) then Inl ZeroDivisionError
           else if flt (fabs (fsub rnd n (Finite 1))) eps then
             map_sum id (\<lambda>m. \<lparr>shape = [3, 3], flat = m\<rparr>)
               (collect
                  [diag y z, off (fsub rnd) x y z w, off (fadd rnd) x z y w,
                   off (fadd rnd) x y z w, diag x z, off (fsub rnd) y z x w,
                   off (fsub rnd) x z y w, off (fadd rnd) y z x w, diag x y])
           else
             map_sum id (\<lambda>m. \<lparr>shape = [3, 3], flat = m\<rparr>)
               (collect
                  [diag_by_n y z, off_by_n (fsub rnd) x y z w, off_by_n (fadd rnd) x z y w,
                   off_by_n (fadd rnd) x y z w, diag_by_n x z, off_by_n (fsub rnd) y z x w,
                   off_by_n (fsub rnd) x z y w, off_by_n (fadd rnd) y z x w, diag_by_n x y]))
      | Array l a \<Rightarrow>
          (let n = map (qnorm rnd) (flat a) in
           if \<exists>v \<in> set n. feq v (Finite 0) then Inl ZeroDivisionError
           else
             (case as_float_array (Array l a) of
                Inl e \<Rightarrow> Inl e
              | Inr q \<Rightarrow>
                  (let q0 = ellipsis_at q 0; q1 = ellipsis_at q 1;
                       q2 = ellipsis_at q 2; q3 = ellipsis_at q 3;
                       idx = [0 ..< length n];
                       diag = (\<lambda>a b. map (\<lambda>i.
                          fsub rnd (Finite 1)
                            (fdiv rnd (fmul rnd (Finite 2)
                               (fadd rnd (fmul rnd (a ! i) (a ! i)) (fmul rnd (b ! i) (b ! i))))
                               (n ! i))) idx);
                       off = (\<lambda>pm a b c d. map (\<lambda>i.
                          fdiv rnd (fmul rnd (Finite 2)
                               (pm (fmul rnd (a ! i) (b ! i)) (fmul rnd (c ! i) (d ! i))))
                               (n ! i)) idx);
                       m00 = diag q2 q3;
                       m01 = off (fsub rnd) q1 q2 q3 q0;
                       m02 = off (fadd rnd) q1 q3 q2 q0;
                       m10 = off (fadd rnd) q1 q2 q3 q0;
                       m11 = diag q1 q3;
                       m12 = off (fsub rnd) q2 q3 q1 q0;
                       m20 = off (fsub rnd) q1 q3 q2 q0;
                       m21 = off (fadd rnd) q2 q3 q1 q0;
                       m22 = diag q1 q2
                   in Inr \<lparr>shape = shape a @ [3, 3], flat =
                        concat (map (\<lambda>i. [m00 ! i, m01 ! i, m02 ! i,
                                            m10 ! i, m11 ! i, m12 ! i,
                                            m20 ! i, m21 ! i, m22 ! i]) idx)\<rparr>))))"

text \<open>
  The entry formulas in the words of the specification, row by row, in double
  arithmetic: the general ones, which divide by the squared norm \<open>n\<close>, and the simplified
  ones for a unit quaternion.
\<close>

definition spec_general_entries :: "(real \<Rightarrow> real) \<Rightarrow> double quaternion \<Rightarrow> double list" where
  "spec_general_entries rnd q =
     (case q of quaternion w x y z \<Rightarrow>
        (let n = qnorm rnd q;
             twice = (\<lambda>a. fmul rnd (Finite 2) a);
             mul = fmul rnd; add = fadd rnd; sub = fsub rnd; quot = fdiv rnd;
             one_minus = (\<lambda>a. fsub rnd (Finite 1) a)
         in
         [one_minus (quot (twice (add (mul y y) (mul z z))) n),
          quot (twice (sub (mul x y) (mul z w))) n,
          quot (twice (add (mul x z) (mul y w))) n,
          quot (twice (add (mul x y) (mul z w))) n,
          one_minus (quot (twice (add (mul x x) (mul z z))) n),
          quot (twice (sub (mul y z) (mul x w))) n,
          quot (twice (sub (mul x z) (mul y w))) n,
          quot (twice (add (mul y z) (mul x w))) n,
          one_minus (quot (twice (add (mul x x) (mul y y))) n)]))"

definition spec_unit_entries :: "(real \<Rightarrow> real) \<Rightarrow> double quaternion \<Rightarrow> double list" where
  "spec_unit_entries rnd q =
     (case q of quaternion w x y z \<Rightarrow>
        (let twice = (\<lambda>a. fmul rnd (Finite 2) a);
             mul = fmul rnd; add = fadd rnd; sub = fsub rnd;
             one_minus = (\<lambda>a. fsub rnd (Finite 1) a)
         in
         [one_minus (twice (add (mul y y) (mul z z))),
          twice (sub (mul x y) (mul z w)),
          twice (add (mul x z) (mul y w)),
          twice (add (mul x y) (mul z w)),
          one_minus (twice (add (mul x x) (mul z z))),
          twice (sub (mul y z) (mul x w)),
          twice (sub (mul x z) (mul y w)),
          twice (add (mul y z) (mul x w)),
          one_minus (twice (add (mul x x) (mul y y)))]))"

text \<open>
  A quaternion scalar one of whose components \<open>x\<close>, \<open>y\<close>, \<open>z\<close> has a square that
  overflows: the components that the scalar branch squares.
\<close>

fun scalar_overflows :: "(real \<Rightarrow> real) \<Rightarrow> double qvalue \<Rightarrow> bool" where
  "scalar_overflows rnd (Scalar q) \<longleftrightarrow>
     overflows rnd (q_x q) \<or> overflows rnd (q_y q) \<or> overflows rnd (q_z q)"
| "scalar_overflows rnd (Array l a) \<longleftrightarrow> False"

section \<open>Rotation matrix to quaternion\<close>

text \<open>
  \<^verbatim>\<open>from_rotation_matrix\<close> is modelled for an input that is one 3x3 matrix, an array of
  shape \<open>(3, 3)\<close> with nine elements: the branches \<^verbatim>\<open>if not shape\<close> of the eigenvector
  algorithm and, in the other algorithm, the case of zero-dimensional index arrays. In
  this section a finite double is idealised as a real number: rounding, overflow and
  underflow are not modelled.
\<close>

text \<open>
  Modelled from the spec: the norm of a quaternion belongs to the compiled extension,
  which is not among the sources at hand. The specification gives it as the squared
  norm \<open>w\<^sup>2 + x\<^sup>2 + y\<^sup>2 + z\<^sup>2\<close>; this is that number for real components.
\<close>

definition norm_q :: "real quaternion \<Rightarrow> real" where
  "norm_q q = (q_w q)\<^sup>2 + (q_x q)\<^sup>2 + (q_y q)\<^sup>2 + (q_z q)\<^sup>2"

text \<open>
  \<^verbatim>\<open>rot[..., i, j]\<close> for an array \<open>rot\<close> that is one 3x3 matrix: entry \<open>(i, j)\<close> in row-major
  order.
\<close>

definition rot_at :: "real ndarray \<Rightarrow> nat \<Rightarrow> nat \<Rightarrow> real" where
  "rot_at rot i j = flat rot ! (3 * i + j)"

text \<open>The symmetric 4x4 matrix \<^verbatim>\<open>K3\<close> of the eigenvector algorithm, as a list of rows.\<close>

definition K3 :: "real ndarray \<Rightarrow> real list list" where
  "K3 rot =
     (let k00 = (rot_at rot 0 0 - rot_at rot 1 1 - rot_at rot 2 2) / 3;
          k01 = (rot_at rot 1 0 + rot_at rot 0 1) / 3;
          k02 = (rot_at rot 2 0 + rot_at rot 0 2) / 3;
          k03 = (rot_at rot 1 2 - rot_at rot 2 1) / 3;
          k10 = k01;
          k11 = (rot_at rot 1 1 - rot_at rot 0 0 - rot_at rot 2 2) / 3;
          k12 = (rot_at rot 2 1 + rot_at rot 1 2) / 3;
          k13 = (rot_at rot 2 0 - rot_at rot 0 2) / 3;
          k20 = k02;
          k21 = k12;
          k22 = (rot_at rot 2 2 - rot_at rot 0 0 - rot_at rot 1 1) / 3;
          k23 = (rot_at rot 0 1 - rot_at rot 1 0) / 3;
          k30 = k03;
          k31 = k13;
          k32 = k23;
          k33 = (rot_at rot 0 0 + rot_at rot 1 1 + rot_at rot 2 2) / 3
      in [[k00, k01, k02, k03], [k10, k11, k12, k13], [k20, k21, k22, k23], [k30, k31, k32, k33]])"

text \<open>\<^verbatim>\<open>np.argmax\<close>: the index of the first occurrence of the largest entry.\<close>

fun argmax_from :: "nat \<Rightarrow> nat \<Rightarrow> real \<Rightarrow> real list \<Rightarrow> nat" where
  "argmax_from i best_i best [] = best_i"
| "argmax_from i best_i best (v # vs) =
     (if best < v then argmax_from (Suc i) i v vs else argmax_from (Suc i) best_i best vs)"

definition argmax :: "real list \<Rightarrow> nat" where
  "argmax xs = (case xs of [] \<Rightarrow> 0 | v # vs \<Rightarrow> argmax_from 1 0 v vs)"

text \<open>
  The branch of \<^verbatim>\<open>from_rotation_matrix\<close> for \<^verbatim>\<open>scipy.linalg\<close> present and \<^verbatim>\<open>nonorthogonal\<close>
  true, on one matrix (\<^verbatim>\<open>shape == ()\<close>). The eigensolver \<^verbatim>\<open>linalg.eigh\<close> is the parameter
  \<open>eigh\<close>: called with \<^verbatim>\<open>eigvals=(3, 3)\<close> it returns the one column \<^verbatim>\<open>eigvecs\<close> of the last
  eigenvalue, or raises \<^verbatim>\<open>LinAlgError\<close>. The scalar part is the last entry of the column and
  the vector part the negated first three.
\<close>

definition from_rotation_matrix_eigh ::
  "(real list list \<Rightarrow> error + real list) \<Rightarrow> real ndarray \<Rightarrow> error + real qvalue" where
  "from_rotation_matrix_eigh eigh rot =
     (case eigh (transpose (K3 rot)) of
        Inl e \<Rightarrow> Inl e
      | Inr eigvecs \<Rightarrow>
          (case map uminus (butlast eigvecs) of
             [x, y, z] \<Rightarrow> Inr (Scalar (quaternion (last eigvecs) x y z))
           | _ \<Rightarrow> Inl ValueError))"

text \<open>
  The other branch, on one matrix: the four candidates, the index of the largest, the
  four entries of \<open>q\<close> overwritten in the block of that index, the division by the
  Euclidean norm, and the view of the four numbers as one quaternion.
\<close>

definition from_rotation_matrix_direct :: "real ndarray \<Rightarrow> error + real qvalue" where
  "from_rotation_matrix_direct rot =
     (let diagonals = [rot_at rot 0 0, rot_at rot 1 1, rot_at rot 2 2,
                       rot_at rot 0 0 + rot_at rot 1 1 + rot_at rot 2 2];
          indices = argmax diagonals;
          q = diagonals;
          q = (if indices = 0 then
                 q[0 := rot_at rot 2 1 - rot_at rot 1 2,
                   1 := 1 + rot_at rot 0 0 - rot_at rot 1 1 - rot_at rot 2 2,
                   2 := rot_at rot 0 1 + rot_at rot 1 0,
                   3 := rot_at rot 0 2 + rot_at rot 2 0]
               else q);
          q = (if indices = 1 then
                 q[0 := rot_at rot 0 2 - rot_at rot 2 0,
                   1 := rot_at rot 1 0 + rot_at rot 0 1,
                   2 := 1 - rot_at rot 0 0 + rot_at rot 1 1 - rot_at rot 2 2,
                   3 := rot_at rot 1 2 + rot_at rot 2 1]
               else q);
          q = (if indices = 2 then
                 q[0 := rot_at rot 1 0 - rot_at rot 0 1,
                   1 := rot_at rot 2 0 + rot_at rot 0 2,
                   2 := rot_at rot 2 1 + rot_at rot 1 2,
                   3 := 1 - rot_at rot 0 0 - rot_at rot 1 1 + rot_at rot 2 2]
               else q);
          q = (if indices = 3 then
                 q[0 := 1 + rot_at rot 0 0 + rot_at rot 1 1 + rot_at rot 2 2,
                   1 := rot_at rot 2 1 - rot_at rot 1 2,
                   2 := rot_at rot 0 2 - rot_at rot 2 0,
                   3 := rot_at rot 1 0 - rot_at rot 0 1]
               else q);
          nrm = sqrt (sum_list (map (\<lambda>v. v\<^sup>2) q));
          q = map (\<lambda>v. v / nrm) q
      in as_quat_array \<lparr>shape = [4], flat = q\<rparr>)"

text \<open>
  \<^verbatim>\<open>from_rotation_matrix(rot, nonorthogonal)\<close> on one matrix. \<open>linalg\<close> is \<open>None\<close> when
  \<^verbatim>\<open>scipy.linalg\<close> cannot be imported, and the eigensolver otherwise.
\<close>

definition from_rotation_matrix ::
  "(real list list \<Rightarrow> error + real list) option \<Rightarrow> real ndarray \<Rightarrow> bool \<Rightarrow> error + real qvalue" where
  "from_rotation_matrix linalg rot nonorthogonal =
     (case linalg of
        Some eigh \<Rightarrow>
          if nonorthogonal then from_rotation_matrix_eigh eigh rot
          else from_rotation_matrix_direct rot
      | None \<Rightarrow> from_rotation_matrix_direct rot)"

text \<open>
  An orthogonal rotation matrix: one 3x3 matrix whose columns are orthonormal and
  whose determinant is one.
\<close>

definition det3 :: "real ndarray \<Rightarrow> real" where
  "det3 rot =
     rot_at rot 0 0 * (rot_at rot 1 1 * rot_at rot 2 2 - rot_at rot 1 2 * rot_at rot 2 1)
     - rot_at rot 0 1 * (rot_at rot 1 0 * rot_at rot 2 2 - rot_at rot 1 2 * rot_at rot 2 0)
     + rot_at rot 0 2 * (rot_at rot 1 0 * rot_at rot 2 1 - rot_at rot 1 1 * rot_at rot 2 0)"

definition is_rotation :: "real ndarray \<Rightarrow> bool" where
  "is_rotation rot \<longleftrightarrow>
     shape rot = [3, 3] \<and> length (flat rot) = 9 \<and>
     (\<forall>i < 3. \<forall>j < 3. (\<Sum>k < 3. rot_at rot k i * rot_at rot k j) = (if i = j then 1 else 0)) \<and>
     det3 rot = 1"

text \<open>
  What the host's eigensolver returns for a symmetric 4x4 matrix \<open>K\<close> and the index range
  \<open>(3, 3)\<close>: a column \<open>e\<close> of Euclidean norm one with \<open>K e = lam e\<close>, where \<open>lam\<close> is the
  last of the eigenvalues in ascending order, that is, no eigenvalue of \<open>K\<close> is larger.
\<close>

definition top_eigenvector :: "real list list \<Rightarrow> real list \<Rightarrow> bool" where
  "top_eigenvector K e \<longleftrightarrow>
     length e = 4 \<and> (\<Sum>i < 4. (e ! i)\<^sup>2) = 1 \<and>
     (\<exists>lam. (\<forall>i < 4. (\<Sum>j < 4. K ! i ! j * e ! j) = lam * e ! i) \<and>
        (\<forall>v mu. length v = 4 \<and> (\<exists>i < 4. v ! i \<noteq> 0) \<and>
            (\<forall>i < 4. (\<Sum>j < 4. K ! i ! j * v ! j) = mu * v ! i) \<longrightarrow> mu \<le> lam))"

text \<open>The quaternion \<open>-q\<close>, which stands for the same rotation as \<open>q\<close>.\<close>

definition negate :: "real quaternion \<Rightarrow> real quaternion" where
  "negate q = quaternion (- q_w q) (- q_x q) (- q_y q) (- q_z q)"

text \<open>
  For the proofs: the matrix \<open>3 K3 + 1\<close>, whose entries are sums and differences of the
  entries of \<open>rot\<close> and of the number one.
\<close>

definition A4 :: "real ndarray \<Rightarrow> nat \<Rightarrow> nat \<Rightarrow> real" where
  "A4 rot i j = 3 * (K3 rot ! i ! j) + (if i = j then 1 else 0)"

section \<open>Axis-angle vectors\<close>

text \<open>
  In this section a finite double is idealised as a real number; the arithmetic is that
  of the compiled extension, which is a parameter or modelled from the specification.

  A function of the compiled extension applied to a value works on every element. Applied
  to a zero-dimensional array the host returns a scalar. The result is a new array,
  contiguous whatever the layout of the argument.
\<close>

fun ufunc :: "('a quaternion \<Rightarrow> 'a quaternion) \<Rightarrow> 'a qvalue \<Rightarrow> 'a qvalue" where
  "ufunc f (Scalar q) = Scalar (f q)"
| "ufunc f (Array l a) =
     (case (shape a, flat a) of
        ([], [q]) \<Rightarrow> Scalar (f q)
      | _ \<Rightarrow> Array Contiguous (a\<lparr>flat := map f (flat a)\<rparr>))"

text \<open>The product of a real number and a quaternion, \<^verbatim>\<open>2*q\<close>.\<close>

definition scalar_multiply :: "real \<Rightarrow> real quaternion \<Rightarrow> real quaternion" where
  "scalar_multiply c q = quaternion (c * q_w q) (c * q_x q) (c * q_y q) (c * q_z q)"

text \<open>The slice \<^verbatim>\<open>a[..., k:]\<close>: every row of the last axis without its first \<open>k\<close> entries.\<close>

definition ellipsis_from :: "'a ndarray \<Rightarrow> nat \<Rightarrow> 'a ndarray" where
  "ellipsis_from a k =
     \<lparr>shape = butlast (shape a) @ [last (shape a) - k],
      flat = concat (map (drop k) (rows (last (shape a)) (flat a)))\<rparr>"

text \<open>
  \<^verbatim>\<open>as_rotation_vector(q)\<close>. The logarithm \<^verbatim>\<open>np.log\<close> and \<^verbatim>\<open>np.normalized\<close> of the compiled
  extension are parameters.
\<close>

definition as_rotation_vector ::
  "(real quaternion \<Rightarrow> real quaternion) \<Rightarrow> (real quaternion \<Rightarrow> real quaternion) \<Rightarrow>
   real qvalue \<Rightarrow> error + real ndarray" where
  "as_rotation_vector qlog normalized q =
     (case as_float_array (ufunc (scalar_multiply 2) (ufunc qlog (ufunc normalized q))) of
        Inl e \<Rightarrow> Inl e
      | Inr a \<Rightarrow> Inr (ellipsis_from a 1))"

text \<open>
  \<^verbatim>\<open>from_rotation_vector(rot)\<close>. The array \<^verbatim>\<open>quats\<close> starts as zeros of shape
  \<^verbatim>\<open>rot.shape[:-1] + (4,)\<close>; the assignment \<^verbatim>\<open>quats[..., 1:] = rot[...]/2\<close> fills the last three
  entries of every row. The host broadcasts a zero-dimensional \<^verbatim>\<open>rot\<close> or a last axis of
  length one over the three entries, and raises a value error for a last axis of any
  length other than one and three. The exponential \<^verbatim>\<open>np.exp\<close> of the compiled extension
  is a parameter.
\<close>

definition from_rotation_vector ::
  "(real quaternion \<Rightarrow> real quaternion) \<Rightarrow> real ndarray \<Rightarrow> error + real qvalue" where
  "from_rotation_vector qexp rot =
     (let half = map (\<lambda>v. v / 2) (flat rot);
          quats_shape = butlast (shape rot) @ [4]
      in
        if shape rot = [] \<or> last (shape rot) = 1 then
          map_sum id (ufunc qexp)
            (as_quat_array \<lparr>shape = quats_shape, flat = concat (map (\<lambda>v. [0, v, v, v]) half)\<rparr>)
        else if last (shape rot) = 3 then
          map_sum id (ufunc qexp)
            (as_quat_array \<lparr>shape = quats_shape, flat = concat (map (\<lambda>r. 0 # r) (rows 3 half))\<rparr>)
        else Inl ValueError)"

text \<open>
  Modelled from the spec: the quaternion exponential belongs to the compiled extension,
  which is not among the sources at hand. The specification gives
  \<open>exp(q) = e\<^sup>w (cos |v|, sin |v| v\<^sub>0)\<close> for the vector part \<open>v\<close> of \<open>q\<close> with unit vector
  \<open>v\<^sub>0 = v / |v|\<close>. It does not say what \<open>v\<^sub>0\<close> is when \<open>v\<close> is the zero vector, so that
  direction is the parameter \<open>u\<close>, and nothing is assumed about it.
\<close>

definition spec_exp :: "real \<times> real \<times> real \<Rightarrow> real quaternion \<Rightarrow> real quaternion" where
  "spec_exp u q =
     (case q of quaternion w x y z \<Rightarrow>
        (let nv = sqrt (x\<^sup>2 + y\<^sup>2 + z\<^sup>2);
             vhat = (if nv = 0 then u else (x / nv, y / nv, z / nv))
         in case vhat of (ux, uy, uz) \<Rightarrow>
              quaternion (exp w * cos nv) (exp w * (sin nv * ux)) (exp w * (sin nv * uy))
                (exp w * (sin nv * uz))))"

section \<open>Euler angles\<close>

text \<open>
  \<^verbatim>\<open>as_euler_angles(q)\<close>, in the arithmetic of the host's arrays. The result array has the
  shape of the input with one more axis of length three; its three columns are computed
  for all elements at once from the float view of the input. The norm is taken before
  the view, and raises nothing.
\<close>

definition as_euler_angles :: "(real \<Rightarrow> real) \<Rightarrow> double qvalue \<Rightarrow> error + double ndarray" where
  "as_euler_angles rnd q0 =
     (let n = map (qnorm rnd) (elements q0) in
      case as_float_array q0 of
        Inl e \<Rightarrow> Inl e
      | Inr q \<Rightarrow>
          (let c0 = ellipsis_at q 0; c1 = ellipsis_at q 1;
               c2 = ellipsis_at q 2; c3 = ellipsis_at q 3;
               idx = [0 ..< length n];
               alpha = map (\<lambda>i. fadd rnd (farctan2 rnd (c3 ! i) (c0 ! i))
                                    (farctan2 rnd (fneg (c1 ! i)) (c2 ! i))) idx;
               beta = map (\<lambda>i. fmul rnd (Finite 2)
                                   (farccos rnd (fsqrt rnd
                                      (fdiv rnd (fadd rnd (fmul rnd (c0 ! i) (c0 ! i))
                                                   (fmul rnd (c3 ! i) (c3 ! i)))
                                         (n ! i))))) idx;
               gamma = map (\<lambda>i. fsub rnd (farctan2 rnd (c3 ! i) (c0 ! i))
                                    (farctan2 rnd (fneg (c1 ! i)) (c2 ! i))) idx
           in Inr \<lparr>shape = shape_of q0 @ [3], flat =
                concat (map (\<lambda>i. [alpha ! i, beta ! i, gamma ! i]) idx)\<rparr>))"

text \<open>
  The three angles in the words of the specification, with \<open>n\<close> the squared norm, in
  double arithmetic.
\<close>

definition spec_euler :: "(real \<Rightarrow> real) \<Rightarrow> double quaternion \<Rightarrow> double list" where
  "spec_euler rnd q =
     (case q of quaternion w x y z \<Rightarrow>
        (let n = qnorm rnd q;
             atan2 = farctan2 rnd; acos = farccos rnd; root = fsqrt rnd;
             twice = (\<lambda>a. fmul rnd (Finite 2) a);
             mul = fmul rnd; add = fadd rnd; sub = fsub rnd; quot = fdiv rnd
         in
         [add (atan2 z w) (atan2 (fneg x) y),
          twice (acos (root (quot (add (mul w w) (mul z z)) n))),
          sub (atan2 z w) (atan2 (fneg x) y)]))"

section \<open>Rotating vectors\<close>

text \<open>
  Indexing a tuple with a Python integer: a negative index counts from the end, and an
  index out of range raises an index error (\<open>None\<close> here).
\<close>

definition py_index :: "'a list \<Rightarrow> int \<Rightarrow> nat option" where
  "py_index xs i =
     (if 0 \<le> i \<and> i < int (length xs) then Some (nat i)
      else if - int (length xs) \<le> i \<and> i < 0 then Some (nat (int (length xs) + i))
      else None)"

text \<open>
  \<^verbatim>\<open>np.asarray(R, dtype=np.quaternion)\<close>: a scalar becomes a zero-dimensional array, and an
  array of quaternions is returned as it is, with its layout.
\<close>

fun asarray :: "'a qvalue \<Rightarrow> 'a qvalue" where
  "asarray (Scalar q) = Array Contiguous \<lparr>shape = [], flat = [q]\<rparr>"
| "asarray (Array l a) = Array l a"

text \<open>
  \<^verbatim>\<open>rotate_vectors(R, v, axis)\<close>. The two checks on \<open>v\<close> come first, then the rotation
  matrices of \<open>R\<close>, then the lists of axis labels, and at last the contraction
  \<^verbatim>\<open>np.einsum\<close> of the host library, which is a parameter. The labels \<^verbatim>\<open>m_axes[-2]\<close> and
  \<^verbatim>\<open>m_axes[-1]\<close> exist because the matrix array has at least two dimensions.
\<close>

definition rotate_vectors ::
  "(double ndarray \<Rightarrow> nat list \<Rightarrow> double ndarray \<Rightarrow> nat list \<Rightarrow> nat list \<Rightarrow> 'r) \<Rightarrow>
   (real \<Rightarrow> real) \<Rightarrow> double \<Rightarrow> double qvalue \<Rightarrow> double ndarray \<Rightarrow> int \<Rightarrow> error + 'r" where
  "rotate_vectors einsum rnd eps R0 v axis =
     (let R = asarray R0 in
      if length (shape v) < 1 \<or> 3 \<notin> set (shape v) then Inl ValueError
      else
        (case py_index (shape v) axis of
           None \<Rightarrow> Inl IndexError
         | Some k \<Rightarrow>
             if shape v ! k \<noteq> 3 then Inl ValueError
             else
               (case as_rotation_matrix rnd eps R of
                  Inl e \<Rightarrow> Inl e
                | Inr m \<Rightarrow>
                    (let m_ndim = length (shape m);
                         v_ndim = length (shape v);
                         m_axes = [0 ..< m_ndim];
                         v_axes = [m_ndim ..< m_ndim + v_ndim];
                         mv_axes = v_axes;
                         mv_axes = mv_axes[k := m_axes ! (m_ndim - 2)];
                         mv_axes = take (m_ndim - 2) m_axes @ mv_axes;
                         v_axes = v_axes[k := m_axes ! (m_ndim - 1)]
                     in Inr (einsum m m_axes v v_axes mv_axes)))))"

text \<open>The length of the selected axis of \<open>v\<close>, when \<open>axis\<close> selects one.\<close>

definition axis_length :: "'a ndarray \<Rightarrow> int \<Rightarrow> nat option" where
  "axis_length v axis = map_option (\<lambda>k. shape v ! k) (py_index (shape v) axis)"

section \<open>Tolerant comparison\<close>









section \<open>Doubles without rounding\<close>

text \<open>
  With the identity as rounding, the operations on finite numbers of moderate size are
  the operations on real numbers. These facts evaluate the model at concrete inputs.
\<close>

lemma max_double_large: "10 ^ 20 < max_double"
  by (simp add: max_double_def)

lemma rounded_exact: "\<bar>r\<bar> \<le> 10 ^ 20 \<Longrightarrow> rounded (\<lambda>r. r) r = Finite r"
  using max_double_large by (auto simp add: rounded_def signed_zero_def)

lemma fadd_exact:
  "\<bar>a + b\<bar> \<le> 10 ^ 20 \<Longrightarrow> fadd (\<lambda>r. r) (Finite a) (Finite b) = Finite (a + b)"
  by (auto simp add: fadd_def rounded_exact signed_zero_def)

lemma fsub_exact:
  "\<bar>a - b\<bar> \<le> 10 ^ 20 \<Longrightarrow> fsub (\<lambda>r. r) (Finite a) (Finite b) = Finite (a - b)"
  by (auto simp add: fsub_def fadd_def rounded_exact signed_zero_def)

lemma fmul_exact:
  "0 \<le> a \<Longrightarrow> 0 \<le> b \<Longrightarrow> a * b \<le> 10 ^ 20 \<Longrightarrow>
     fmul (\<lambda>r. r) (Finite a) (Finite b) = Finite (a * b)"
  by (auto simp add: fmul_def rounded_exact signed_zero_def)

lemma fmul_exact_nonzero:
  "a \<noteq> 0 \<Longrightarrow> b \<noteq> 0 \<Longrightarrow> \<bar>a * b\<bar> \<le> 10 ^ 20 \<Longrightarrow>
     fmul (\<lambda>r. r) (Finite a) (Finite b) = Finite (a * b)"
  by (auto simp add: fmul_def rounded_exact)

lemma fdiv_exact:
  "0 \<le> a \<Longrightarrow> 0 < b \<Longrightarrow> a / b \<le> 10 ^ 20 \<Longrightarrow>
     fdiv (\<lambda>r. r) (Finite a) (Finite b) = Finite (a / b)"
  by (auto simp add: fdiv_def rounded_exact signed_zero_def)

lemma no_overflow: "a * a \<le> 10 ^ 20 \<Longrightarrow> \<not> overflows (\<lambda>r. r) (Finite a)"
  by (simp add: overflows_def fmul_exact_nonzero fmul_def signed_zero_def rounded_exact)

lemmas exact = fadd_exact fsub_exact fmul_exact fdiv_exact no_overflow

section \<open>Properties of the view bridge\<close>

lemma atleast_1d_shape_nonempty: "shape (snd (atleast_1d a)) \<noteq> []"
  by (cases a) auto

lemma atleast_1d_flat: "flat (snd (atleast_1d a)) = elements a"
  by (cases a) auto

lemma atleast_1d_layout: "fst (atleast_1d a) = layout_of a"
  by (cases a) auto

lemma atleast_1d_shape: "shape_of a \<noteq> [] \<Longrightarrow> shape (snd (atleast_1d a)) = shape_of a"
  by (cases a) auto

lemma prod_list_butlast_last:
  "s \<noteq> [] \<Longrightarrow> prod_list (butlast s) * last s = prod_list (s :: nat list)"
  by (induction s) auto

lemma quads_components: "quads (concat (map components qs)) = qs"
  by (induction qs) (auto simp: components_def)

text \<open>
  The float view of a scalar or of a contiguous array holds the four components of every
  element, row by row; the float view of a strided array is refused.
\<close>

lemma as_float_array_eq:
  assumes "layout_of a = Contiguous"
  shows "as_float_array a =
     Inr \<lparr>shape = shape (snd (atleast_1d a)) @ [4], flat = concat (map components (elements a))\<rparr>"
proof -
  obtain l b where lb: "atleast_1d a = (l, b)" by (cases "atleast_1d a")
  have l: "l = Contiguous"
    using atleast_1d_layout [of a] assms lb by simp
  have b: "shape b \<noteq> []" "flat b = elements a"
    using atleast_1d_shape_nonempty [of a] atleast_1d_flat [of a] lb by simp_all
  show ?thesis
    using b by (simp add: as_float_array_def lb l reshape_def prod_list_butlast_last)
qed

lemma as_float_array_strided: "as_float_array (Array Strided a) = Inl ValueError"
  by (simp add: as_float_array_def)

lemma rows_components: "rows 4 (concat (map components qs)) = map components qs"
  by (induction qs) (auto simp: components_def)

lemma ellipsis_at_components:
  "ellipsis_at \<lparr>shape = s @ [4], flat = concat (map components qs)\<rparr> k =
     map (\<lambda>q. components q ! k) qs"
  by (simp add: ellipsis_at_def rows_components del: rows.simps)

lemma map_index_eq:
  "(\<And>i. i < length qs \<Longrightarrow> F i = G (qs ! i)) \<Longrightarrow> map F [0 ..< length qs] = map G qs"
  by (rule nth_equalityI) auto

text \<open>
  C5. The specification and the docstring give the float view one more dimension than
  the input: shape \<open>(4,)\<close> for a scalar quaternion. In the source the scalar is first
  promoted to shape \<open>(1,)\<close>, so the test for shape \<open>()\<close> never holds, and the result
  has shape \<open>(1, 4)\<close>, two dimensions more than the input.
\<close>

theorem as_float_array_scalar:
  "as_float_array (Scalar q) = Inr \<lparr>shape = [1, 4], flat = [q_w q, q_x q, q_y q, q_z q]\<rparr>"
  by (simp add: as_float_array_eq components_def)

text \<open>
  For a contiguous quaternion array of at least one dimension, viewing it as floats and
  back gives the array again: the same shape and the same elements in the same order.
\<close>

lemma as_quat_array_as_float_array:
  assumes "shape a \<noteq> []"
  shows "\<exists>f. as_float_array (Array Contiguous a) = Inr f \<and>
              as_quat_array f = Inr (Array Contiguous a)"
proof -
  let ?f = "\<lparr>shape = shape a @ [4], flat = concat (map components (flat a))\<rparr>"
  have f: "as_float_array (Array Contiguous a) = Inr ?f"
    using assms by (simp add: as_float_array_eq)
  from assms have ne4: "shape a @ [4] \<noteq> [4]" by simp
  have "as_quat_array ?f = Inr (Array Contiguous a)"
    using assms ne4
    by (simp add: as_quat_array_def ascontiguousarray_def Let_def view_quaternion_def
        reshape_def quads_components copy_def)
  with f show ?thesis by blast
qed

lemma as_quat_array_as_float_array_example:
  "as_float_array (Array Contiguous \<lparr>shape = [2], flat = [one, zero]\<rparr>)
     = Inr \<lparr>shape = [2, 4], flat = [1, 0, 0, 0, 0, 0, 0, 0]\<rparr> \<and>
   as_quat_array \<lparr>shape = [2, 4], flat = [1, 0, 0, 0, 0, 0, 0, 0 :: real]\<rparr>
     = Inr (Array Contiguous \<lparr>shape = [2], flat = [one, zero]\<rparr>)"
proof -
  have f: "as_float_array (Array Contiguous \<lparr>shape = [2], flat = [one, zero]\<rparr>)
     = Inr \<lparr>shape = [2, 4], flat = [1, 0, 0, 0, 0, 0, 0, 0]\<rparr>"
    by (simp add: as_float_array_def reshape_def components_def one_def zero_def)
  show ?thesis
    using as_quat_array_as_float_array [of "\<lparr>shape = [2], flat = [one, zero]\<rparr>"]
    by (simp add: f)
qed

text \<open>
  C4. The specification has the round trip for every quaternion array, and the docstring
  of \<^verbatim>\<open>as_float_array\<close> promises the float view of the quaternion array without a
  condition on its layout. For an array whose elements are not adjacent in memory, such
  as the two elements \<open>[one, zero]\<close> of a view taken with a step, the source asks the host
  for a view of the array itself at another item size, which the host refuses with a
  value error; \<^verbatim>\<open>as_quat_array\<close> guards the same call and falls back to a copy, and
  \<^verbatim>\<open>as_float_array\<close> does not. So there is no float array to convert back, and the round
  trip does not give the array.
\<close>

theorem as_float_array_strided_fails:
  "as_float_array (Array Strided \<lparr>shape = [2], flat = [one, zero]\<rparr>) = Inl ValueError \<and>
   (case as_float_array (Array Strided \<lparr>shape = [2], flat = [one, zero]\<rparr>) of
      Inl e \<Rightarrow> Inl e
    | Inr f \<Rightarrow> as_quat_array f) \<noteq> Inr (Array Strided \<lparr>shape = [2], flat = [one, zero]\<rparr>)"
  by (simp add: as_float_array_def)

section \<open>Properties of the rotation matrix\<close>

lemma feq_zero: "feq n (Finite 0) \<longleftrightarrow> is_zero n"
  by (cases n) (auto simp add: feq_def)

lemma py_div_nonzero: "\<not> is_zero n \<Longrightarrow> py_div rnd a n = Inr (fdiv rnd a n)"
  by (simp add: py_div_def)

text \<open>
  The scalar branch on a quaternion whose norm is not zero: an overflow error when the
  square of \<open>x\<close>, \<open>y\<close> or \<open>z\<close> overflows, and the matrix of the entry formulas otherwise.
\<close>

lemma as_rotation_matrix_scalar_eq:
  assumes "\<not> is_zero (qnorm rnd q)"
  shows "as_rotation_matrix rnd eps (Scalar q) =
           (if overflows rnd (q_x q) \<or> overflows rnd (q_y q) \<or> overflows rnd (q_z q)
            then Inl OverflowError
            else Inr \<lparr>shape = [3, 3],
                      flat = (if flt (fabs (fsub rnd (qnorm rnd q) (Finite 1))) eps
                              then spec_unit_entries rnd q
                              else spec_general_entries rnd q)\<rparr>)"
proof (cases q)
  case (quaternion w x y z)
  have n: "\<not> is_zero (qnorm rnd (quaternion w x y z))"
    using assms quaternion by simp
  show ?thesis
    unfolding quaternion
    using n
    by (simp add: as_rotation_matrix_def Let_def feq_zero py_div_nonzero py_pow2_def
        spec_unit_entries_def spec_general_entries_def)
qed

lemma as_rotation_matrix_scalar_examples:
  "as_rotation_matrix (\<lambda>r. r) (Finite (1 / 2))
       (Scalar (quaternion (Finite 0) (Finite 2) (Finite 0) (Finite 0))) =
     Inr \<lparr>shape = [3, 3],
          flat = [Finite 1, Finite 0, Finite 0,
                  Finite 0, Finite (- 1), Finite 0,
                  Finite 0, Finite 0, Finite (- 1)]\<rparr> \<and>
   as_rotation_matrix (\<lambda>r. r) (Finite (1 / 2))
       (Scalar (quaternion (Finite 1) (Finite 0) (Finite 0) (Finite 0))) =
     Inr \<lparr>shape = [3, 3],
          flat = [Finite 1, Finite 0, Finite 0,
                  Finite 0, Finite 1, Finite 0,
                  Finite 0, Finite 0, Finite 1]\<rparr>"
proof -
  have na: "qnorm (\<lambda>r. r) (quaternion (Finite 0) (Finite 2) (Finite 0) (Finite 0)) = Finite 4"
    and nb: "qnorm (\<lambda>r. r) (quaternion (Finite 1) (Finite 0) (Finite 0) (Finite 0)) = Finite 1"
    by (simp_all add: qnorm_def exact)
  have a: "\<not> is_zero (qnorm (\<lambda>r. r) (quaternion (Finite 0) (Finite 2) (Finite 0) (Finite 0)))"
    and b: "\<not> is_zero (qnorm (\<lambda>r. r) (quaternion (Finite 1) (Finite 0) (Finite 0) (Finite 0)))"
    by (simp_all add: na nb)
  show ?thesis
    using as_rotation_matrix_scalar_eq [OF a, of "Finite (1 / 2)"]
      as_rotation_matrix_scalar_eq [OF b, of "Finite (1 / 2)"]
    by (simp add: na nb exact flt_def spec_unit_entries_def spec_general_entries_def)
qed

text \<open>
  On a contiguous array without a zero-norm element the nine entries of every element
  are the general formulas of the specification: the array branch agrees with the
  scalar one.
\<close>

lemma as_rotation_matrix_array:
  assumes "\<forall>e \<in> set (flat a). \<not> is_zero (qnorm rnd e)"
  shows "as_rotation_matrix rnd eps (Array Contiguous a) =
           Inr \<lparr>shape = shape a @ [3, 3],
                flat = concat (map (spec_general_entries rnd) (flat a))\<rparr>"
proof -
  let ?qs = "flat a"
  let ?f = "\<lparr>shape = shape (snd (atleast_1d (Array Contiguous a))) @ [4],
             flat = concat (map components ?qs)\<rparr>"
  let ?c = "\<lambda>k. ellipsis_at ?f k"
  let ?n = "map (qnorm rnd) ?qs"
  let ?idx = "[0 ..< length ?qs]"
  let ?diag = "\<lambda>a b. map (\<lambda>i.
      fsub rnd (Finite 1)
        (fdiv rnd (fmul rnd (Finite 2)
           (fadd rnd (fmul rnd (a ! i) (a ! i)) (fmul rnd (b ! i) (b ! i))))
           (?n ! i))) ?idx"
  let ?off = "\<lambda>pm a b c d. map (\<lambda>i.
      fdiv rnd (fmul rnd (Finite 2)
           (pm (fmul rnd (a ! i) (b ! i)) (fmul rnd (c ! i) (d ! i))))
           (?n ! i)) ?idx"
  have f: "as_float_array (Array Contiguous a) = Inr ?f"
    by (simp add: as_float_array_eq)
  have "map (\<lambda>i. [?diag (?c 2) (?c 3) ! i, ?off (fsub rnd) (?c 1) (?c 2) (?c 3) (?c 0) ! i,
                   ?off (fadd rnd) (?c 1) (?c 3) (?c 2) (?c 0) ! i,
                   ?off (fadd rnd) (?c 1) (?c 2) (?c 3) (?c 0) ! i, ?diag (?c 1) (?c 3) ! i,
                   ?off (fsub rnd) (?c 2) (?c 3) (?c 1) (?c 0) ! i,
                   ?off (fsub rnd) (?c 1) (?c 3) (?c 2) (?c 0) ! i,
                   ?off (fadd rnd) (?c 2) (?c 3) (?c 1) (?c 0) ! i, ?diag (?c 1) (?c 2) ! i]) ?idx
        = map (spec_general_entries rnd) ?qs"
  proof (rule map_index_eq)
    fix i assume i: "i < length ?qs"
    obtain w x y z where q: "?qs ! i = quaternion w x y z" by (cases "?qs ! i")
    show "[?diag (?c 2) (?c 3) ! i, ?off (fsub rnd) (?c 1) (?c 2) (?c 3) (?c 0) ! i,
           ?off (fadd rnd) (?c 1) (?c 3) (?c 2) (?c 0) ! i,
           ?off (fadd rnd) (?c 1) (?c 2) (?c 3) (?c 0) ! i, ?diag (?c 1) (?c 3) ! i,
           ?off (fsub rnd) (?c 2) (?c 3) (?c 1) (?c 0) ! i,
           ?off (fsub rnd) (?c 1) (?c 3) (?c 2) (?c 0) ! i,
           ?off (fadd rnd) (?c 2) (?c 3) (?c 1) (?c 0) ! i, ?diag (?c 1) (?c 2) ! i]
          = spec_general_entries rnd (?qs ! i)"
      using i
      by (simp add: ellipsis_at_components q components_def spec_general_entries_def Let_def)
  qed
  moreover have "\<not> (\<exists>v \<in> set ?n. feq v (Finite 0))"
    using assms by (auto simp add: feq_zero)
  ultimately show ?thesis
    by (simp add: as_rotation_matrix_def f Let_def)
qed

text \<open>
  C1. The specification has the matrix of the entry formulas for every scalar quaternion
  of nonzero norm, and the docstring asks only that the quaternion be nonzero and names
  the zero-division error as the only one raised. The quaternion
  \<open>(10\<^sup>2\<^sup>0\<^sup>0, 10\<^sup>2\<^sup>0\<^sup>0, 0, 0)\<close> has the norm infinity, which is not zero; in the scalar branch
  Python's power \<^verbatim>\<open>q.x**2\<close> raises an overflow error, so no matrix is returned. The array
  branch of the same function, on the array of shape \<open>(1,)\<close> that holds this quaternion,
  raises nothing: it returns the matrix of the general formulas in double arithmetic,
  with NaN where infinity is divided by infinity.
\<close>

theorem as_rotation_matrix_scalar_overflow:
  "\<not> feq (qnorm (\<lambda>r. r)
            (quaternion (Finite (10 ^ 200)) (Finite (10 ^ 200)) (Finite 0) (Finite 0)))
         (Finite 0) \<and>
   as_rotation_matrix (\<lambda>r. r) (Finite (1 / 10 ^ 14))
       (Scalar (quaternion (Finite (10 ^ 200)) (Finite (10 ^ 200)) (Finite 0) (Finite 0)))
     = Inl OverflowError \<and>
   as_rotation_matrix (\<lambda>r. r) (Finite (1 / 10 ^ 14))
       (Array Contiguous \<lparr>shape = [1], flat =
          [quaternion (Finite (10 ^ 200)) (Finite (10 ^ 200)) (Finite 0) (Finite 0)]\<rparr>)
     = Inr \<lparr>shape = [1, 3, 3],
            flat = [Finite 1, Finite 0, Finite 0,
                    Finite 0, NaN, NaN,
                    Finite 0, NaN, NaN]\<rparr>"
proof (intro conjI)
  let ?q = "quaternion (Finite (10 ^ 200)) (Finite (10 ^ 200)) (Finite 0) (Finite 0)"
  have big: "max_double < 10 ^ 200 * 10 ^ 200"
    by (simp add: max_double_def)
  have sq: "fmul (\<lambda>r. r) (Finite (10 ^ 200)) (Finite (10 ^ 200)) = PInf"
    using big by (simp add: fmul_def rounded_def)
  have z: "fmul (\<lambda>r. r) (Finite 0) (Finite 0) = Finite 0"
    "fmul (\<lambda>r. r) (Finite (10 ^ 200)) (Finite 0) = Finite 0"
    "fmul (\<lambda>r. r) (Finite 0) (Finite (10 ^ 200)) = Finite 0"
    by (simp_all add: fmul_def signed_zero_def)
  have n: "qnorm (\<lambda>r. r) ?q = PInf"
    unfolding qnorm_def quaternion.sel sq z by (simp add: fadd_def)
  have o: "overflows (\<lambda>r. r) (Finite (10 ^ 200))"
    unfolding overflows_def sq by simp
  have nz: "\<not> is_zero (qnorm (\<lambda>r. r) ?q)"
    unfolding n by simp
  show "\<not> feq (qnorm (\<lambda>r. r) ?q) (Finite 0)"
    unfolding n by (simp add: feq_def)
  show "as_rotation_matrix (\<lambda>r. r) (Finite (1 / 10 ^ 14)) (Scalar ?q) = Inl OverflowError"
    unfolding as_rotation_matrix_scalar_eq [OF nz] quaternion.sel
    using o by (simp only: simp_thms if_True)
  have e: "spec_general_entries (\<lambda>r. r) ?q =
      [Finite 1, Finite 0, Finite 0, Finite 0, NaN, NaN, Finite 0, NaN, NaN]"
    unfolding spec_general_entries_def quaternion.case Let_def n sq z
    by (simp add: fadd_def fsub_def fdiv_def fmul_def signed_zero_def signed_inf_def
        rounded_exact)
  have "\<forall>e \<in> set (flat \<lparr>shape = [1], flat = [?q]\<rparr>). \<not> is_zero (qnorm (\<lambda>r. r) e)"
    using nz by simp
  from as_rotation_matrix_array [OF this, of "Finite (1 / 10 ^ 14)"]
  show "as_rotation_matrix (\<lambda>r. r) (Finite (1 / 10 ^ 14))
       (Array Contiguous \<lparr>shape = [1], flat = [?q]\<rparr>)
     = Inr \<lparr>shape = [1, 3, 3],
            flat = [Finite 1, Finite 0, Finite 0, Finite 0, NaN, NaN, Finite 0, NaN, NaN]\<rparr>"
    unfolding e [symmetric] by simp
qed

lemma length_spec_general_entries: "length (spec_general_entries rnd q) = 9"
  by (cases q) (simp add: spec_general_entries_def Let_def)

lemma length_spec_unit_entries: "length (spec_unit_entries rnd q) = 9"
  by (cases q) (simp add: spec_unit_entries_def Let_def)

lemma length_concat_nine:
  "(\<And>q. length (f q) = 9) \<Longrightarrow> length (concat (map f qs)) = 9 * length qs"
  by (induction qs) simp_all

lemma as_rotation_matrix_strided:
  assumes "\<forall>e \<in> set (flat a). \<not> is_zero (qnorm rnd e)"
  shows "as_rotation_matrix rnd eps (Array Strided a) = Inl ValueError"
proof -
  have "\<not> (\<exists>v \<in> set (map (qnorm rnd) (flat a)). feq v (Finite 0))"
    using assms by (auto simp add: feq_zero)
  then show ?thesis
    by (simp add: as_rotation_matrix_def Let_def as_float_array_strided)
qed

lemma as_rotation_matrix_zero:
  assumes "\<exists>e \<in> set (elements q). is_zero (qnorm rnd e)"
  shows "as_rotation_matrix rnd eps q = Inl ZeroDivisionError"
proof (cases q)
  case (Scalar s)
  then show ?thesis
    using assms by (simp add: as_rotation_matrix_def Let_def feq_zero)
next
  case (Array l a)
  have "\<exists>v \<in> set (map (qnorm rnd) (flat a)). feq v (Finite 0)"
    using assms Array by (auto simp add: feq_zero)
  then show ?thesis
    unfolding Array by (simp add: as_rotation_matrix_def Let_def)
qed

text \<open>
  What the conversion returns when no element has norm zero: a value error for a strided
  array, an overflow error for a scalar with an overflowing square, and otherwise the
  whole array of matrices.
\<close>

lemma as_rotation_matrix_nonzero:
  assumes "\<forall>e \<in> set (elements q). \<not> is_zero (qnorm rnd e)"
  shows "if layout_of q = Strided then as_rotation_matrix rnd eps q = Inl ValueError
         else if scalar_overflows rnd q then as_rotation_matrix rnd eps q = Inl OverflowError
         else \<exists>m. as_rotation_matrix rnd eps q = Inr m \<and> shape m = shape_of q @ [3, 3] \<and>
                length (flat m) = 9 * length (elements q)"
proof (cases q)
  case (Scalar s)
  have n: "\<not> is_zero (qnorm rnd s)"
    using assms Scalar by simp
  show ?thesis
    unfolding Scalar as_rotation_matrix_scalar_eq [OF n]
    by (simp add: length_spec_general_entries length_spec_unit_entries)
next
  case (Array l a)
  have n: "\<forall>e \<in> set (flat a). \<not> is_zero (qnorm rnd e)"
    using assms Array by simp
  show ?thesis
  proof (cases l)
    case Contiguous
    show ?thesis
      unfolding Array Contiguous as_rotation_matrix_array [OF n]
      by (simp add: length_concat_nine length_spec_general_entries)
  next
    case Strided
    show ?thesis
      unfolding Array Strided as_rotation_matrix_strided [OF n] by simp
  qed
qed

text \<open>
  C2. The conversion raises the zero-division error exactly when an element of the input
  (the scalar itself, or some element of the array) has norm zero. The norm is tested
  before anything else is computed; so when the error is raised there is no result at
  all, and when no element has norm zero the result is the whole array of matrices, nine
  entries for every element, unless the call fails as a whole for another reason: the
  float view of a strided array is refused (a value error), or a square in the scalar
  branch overflows (an overflow error).
\<close>

theorem as_rotation_matrix_zero_division:
  "(as_rotation_matrix rnd eps q = Inl ZeroDivisionError \<longleftrightarrow>
      (\<exists>e \<in> set (elements q). feq (qnorm rnd e) (Finite 0))) \<and>
   ((\<forall>e \<in> set (elements q). \<not> feq (qnorm rnd e) (Finite 0)) \<longrightarrow>
      (if layout_of q = Strided then as_rotation_matrix rnd eps q = Inl ValueError
       else if scalar_overflows rnd q then as_rotation_matrix rnd eps q = Inl OverflowError
       else \<exists>m. as_rotation_matrix rnd eps q = Inr m \<and> shape m = shape_of q @ [3, 3] \<and>
              length (flat m) = 9 * length (elements q)))"
proof (cases "\<exists>e \<in> set (elements q). is_zero (qnorm rnd e)")
  case True
  then show ?thesis
    using as_rotation_matrix_zero [of q rnd eps] by (auto simp add: feq_zero)
next
  case False
  then have n: "\<forall>e \<in> set (elements q). \<not> is_zero (qnorm rnd e)" by simp
  from as_rotation_matrix_nonzero [OF n, of eps]
  have "as_rotation_matrix rnd eps q \<noteq> Inl ZeroDivisionError"
    by (auto split: if_splits)
  then show ?thesis
    using n as_rotation_matrix_nonzero [OF n, of eps] by (simp add: feq_zero)
qed

theorem as_rotation_matrix_zero_division_witness:
  "as_rotation_matrix (\<lambda>r. r) (Finite (1 / 2))
     (Array Contiguous \<lparr>shape = [2], flat =
        [quaternion (Finite 1) (Finite 0) (Finite 0) (Finite 0),
         quaternion (Finite 0) (Finite 0) (Finite 0) (Finite 0)]\<rparr>) = Inl ZeroDivisionError \<and>
   (\<exists>m. as_rotation_matrix (\<lambda>r. r) (Finite (1 / 2))
          (Array Contiguous \<lparr>shape = [2], flat =
             [quaternion (Finite 1) (Finite 0) (Finite 0) (Finite 0),
              quaternion (Finite 0) (Finite 2) (Finite 0) (Finite 0)]\<rparr>) = Inr m \<and>
        shape m = [2, 3, 3] \<and> length (flat m) = 18)"
proof -
  have one: "qnorm (\<lambda>r. r) (quaternion (Finite 1) (Finite 0) (Finite 0) (Finite 0)) = Finite 1"
    by (simp add: qnorm_def exact)
  have zero: "qnorm (\<lambda>r. r) (quaternion (Finite 0) (Finite 0) (Finite 0) (Finite 0)) = Finite 0"
    by (simp add: qnorm_def exact)
  have two: "qnorm (\<lambda>r. r) (quaternion (Finite 0) (Finite 2) (Finite 0) (Finite 0)) = Finite 4"
    by (simp add: qnorm_def exact)
  show ?thesis
    using as_rotation_matrix_zero_division [of "\<lambda>r. r" "Finite (1 / 2)"
        "Array Contiguous \<lparr>shape = [2], flat =
           [quaternion (Finite 1) (Finite 0) (Finite 0) (Finite 0),
            quaternion (Finite 0) (Finite 0) (Finite 0) (Finite 0)]\<rparr>"]
      as_rotation_matrix_zero_division [of "\<lambda>r. r" "Finite (1 / 2)"
        "Array Contiguous \<lparr>shape = [2], flat =
           [quaternion (Finite 1) (Finite 0) (Finite 0) (Finite 0),
            quaternion (Finite 0) (Finite 2) (Finite 0) (Finite 0)]\<rparr>"]
    by (simp add: one zero two feq_def)
qed

section \<open>Properties of the conversion from a rotation matrix\<close>

lemma transpose_K3: "transpose (K3 rot) = K3 rot"
  by (simp add: K3_def Let_def)

text \<open>
  For a matrix with orthonormal columns and determinant one, every column is the cross
  product of the other two: the squared distance between them is
  \<open>1 - 2 det + 1\<close>. So every entry equals its cofactor.
\<close>

lemma rotation_cofactors:
  fixes m00 m01 m02 m10 m11 m12 m20 m21 m22 :: real
  assumes col00: "m00 * m00 + m10 * m10 + m20 * m20 = 1" and col11: "m01 * m01 + m11 * m11 + m21 * m21 = 1" and col22: "m02 * m02 + m12 * m12 + m22 * m22 = 1"
    and col01: "m00 * m01 + m10 * m11 + m20 * m21 = 0" and col02: "m00 * m02 + m10 * m12 + m20 * m22 = 0" and col12: "m01 * m02 + m11 * m12 + m21 * m22 = 0"
    and det: "m00 * (m11 * m22 - m12 * m21) - m01 * (m10 * m22 - m12 * m20) + m02 * (m10 * m21 - m11 * m20) = 1"
  shows "m00 = m11 * m22 - m12 * m21"
    and "m10 = m02 * m21 - m01 * m22"
    and "m20 = m01 * m12 - m02 * m11"
    and "m01 = m12 * m20 - m10 * m22"
    and "m11 = m00 * m22 - m02 * m20"
    and "m21 = m02 * m10 - m00 * m12"
    and "m02 = m10 * m21 - m11 * m20"
    and "m12 = m01 * m20 - m00 * m21"
    and "m22 = m00 * m11 - m01 * m10"
proof -
  have "(m00 - (m11 * m22 - m12 * m21))\<^sup>2 + (m10 - (m02 * m21 - m01 * m22))\<^sup>2 + (m20 - (m01 * m12 - m02 * m11))\<^sup>2 =
      (m00 * m00 + m10 * m10 + m20 * m20) - 2 * (m00 * (m11 * m22 - m12 * m21) - m01 * (m10 * m22 - m12 * m20) + m02 * (m10 * m21 - m11 * m20))
      + (m01 * m01 + m11 * m11 + m21 * m21) * (m02 * m02 + m12 * m12 + m22 * m22) - (m01 * m02 + m11 * m12 + m21 * m22)\<^sup>2"
    by algebra
  then have "(m00 - (m11 * m22 - m12 * m21))\<^sup>2 + (m10 - (m02 * m21 - m01 * m22))\<^sup>2 + (m20 - (m01 * m12 - m02 * m11))\<^sup>2 = 0"
    by (simp only: col00 col11 col22 col01 col02 col12 det) simp
  then have c0: "m00 - (m11 * m22 - m12 * m21) = 0" "m10 - (m02 * m21 - m01 * m22) = 0" "m20 - (m01 * m12 - m02 * m11) = 0"
    by (simp_all add: add_nonneg_eq_0_iff)
  have "(m01 - (m12 * m20 - m10 * m22))\<^sup>2 + (m11 - (m00 * m22 - m02 * m20))\<^sup>2 + (m21 - (m02 * m10 - m00 * m12))\<^sup>2 =
      (m01 * m01 + m11 * m11 + m21 * m21) - 2 * (m00 * (m11 * m22 - m12 * m21) - m01 * (m10 * m22 - m12 * m20) + m02 * (m10 * m21 - m11 * m20))
      + (m00 * m00 + m10 * m10 + m20 * m20) * (m02 * m02 + m12 * m12 + m22 * m22) - (m00 * m02 + m10 * m12 + m20 * m22)\<^sup>2"
    by algebra
  then have "(m01 - (m12 * m20 - m10 * m22))\<^sup>2 + (m11 - (m00 * m22 - m02 * m20))\<^sup>2 + (m21 - (m02 * m10 - m00 * m12))\<^sup>2 = 0"
    by (simp only: col00 col11 col22 col01 col02 col12 det) simp
  then have c1: "m01 - (m12 * m20 - m10 * m22) = 0" "m11 - (m00 * m22 - m02 * m20) = 0" "m21 - (m02 * m10 - m00 * m12) = 0"
    by (simp_all add: add_nonneg_eq_0_iff)
  have "(m02 - (m10 * m21 - m11 * m20))\<^sup>2 + (m12 - (m01 * m20 - m00 * m21))\<^sup>2 + (m22 - (m00 * m11 - m01 * m10))\<^sup>2 =
      (m02 * m02 + m12 * m12 + m22 * m22) - 2 * (m00 * (m11 * m22 - m12 * m21) - m01 * (m10 * m22 - m12 * m20) + m02 * (m10 * m21 - m11 * m20))
      + (m00 * m00 + m10 * m10 + m20 * m20) * (m01 * m01 + m11 * m11 + m21 * m21) - (m00 * m01 + m10 * m11 + m20 * m21)\<^sup>2"
    by algebra
  then have "(m02 - (m10 * m21 - m11 * m20))\<^sup>2 + (m12 - (m01 * m20 - m00 * m21))\<^sup>2 + (m22 - (m00 * m11 - m01 * m10))\<^sup>2 = 0"
    by (simp only: col00 col11 col22 col01 col02 col12 det) simp
  then have c2: "m02 - (m10 * m21 - m11 * m20) = 0" "m12 - (m01 * m20 - m00 * m21) = 0" "m22 - (m00 * m11 - m01 * m10) = 0"
    by (simp_all add: add_nonneg_eq_0_iff)
  show "m00 = m11 * m22 - m12 * m21"
    and "m10 = m02 * m21 - m01 * m22"
    and "m20 = m01 * m12 - m02 * m11"
    and "m01 = m12 * m20 - m10 * m22"
    and "m11 = m00 * m22 - m02 * m20"
    and "m21 = m02 * m10 - m00 * m12"
    and "m02 = m10 * m21 - m11 * m20"
    and "m12 = m01 * m20 - m00 * m21"
    and "m22 = m00 * m11 - m01 * m10"
    using c0 c1 c2 by simp_all
qed


text \<open>The rows of such a matrix are orthonormal as well.\<close>

lemma rotation_rows:
  fixes m00 m01 m02 m10 m11 m12 m20 m21 m22 :: real
  assumes col00: "m00 * m00 + m10 * m10 + m20 * m20 = 1" and col11: "m01 * m01 + m11 * m11 + m21 * m21 = 1"
    and col22: "m02 * m02 + m12 * m12 + m22 * m22 = 1"
    and col01: "m00 * m01 + m10 * m11 + m20 * m21 = 0" and col02: "m00 * m02 + m10 * m12 + m20 * m22 = 0"
    and col12: "m01 * m02 + m11 * m12 + m21 * m22 = 0"
    and det: "m00 * (m11 * m22 - m12 * m21) - m01 * (m10 * m22 - m12 * m20) + m02 * (m10 * m21 - m11 * m20) = 1"
  shows "m00 * m00 + m01 * m01 + m02 * m02 = 1"
    and "m00 * m10 + m01 * m11 + m02 * m12 = 0"
    and "m00 * m20 + m01 * m21 + m02 * m22 = 0"
    and "m10 * m10 + m11 * m11 + m12 * m12 = 1"
    and "m10 * m20 + m11 * m21 + m12 * m22 = 0"
    and "m20 * m20 + m21 * m21 + m22 * m22 = 1"
proof -
  note cof = rotation_cofactors [OF assms]
  show "m00 * m00 + m01 * m01 + m02 * m02 = 1"
    using cof(1) cof(4) cof(7) det by algebra
  show "m00 * m10 + m01 * m11 + m02 * m12 = 0"
    using cof(2) cof(5) cof(8) by algebra
  show "m00 * m20 + m01 * m21 + m02 * m22 = 0"
    using cof(3) cof(6) cof(9) by algebra
  show "m10 * m10 + m11 * m11 + m12 * m12 = 1"
    using cof(2) cof(5) cof(8) det by algebra
  show "m10 * m20 + m11 * m21 + m12 * m22 = 0"
    using cof(3) cof(6) cof(9) by algebra
  show "m20 * m20 + m21 * m21 + m22 * m22 = 1"
    using cof(3) cof(6) cof(9) det by algebra
qed

text \<open>
  The matrix \<open>3 K3 + 1\<close> of a rotation matrix has rank one: every 2x2 minor through a
  diagonal entry vanishes. Each of them is a combination of four of the relations above.
\<close>

lemma rotation_minors:
  fixes m00 m01 m02 m10 m11 m12 m20 m21 m22 :: real
  assumes col00: "m00 * m00 + m10 * m10 + m20 * m20 = 1" and col11: "m01 * m01 + m11 * m11 + m21 * m21 = 1"
    and col22: "m02 * m02 + m12 * m12 + m22 * m22 = 1"
    and col01: "m00 * m01 + m10 * m11 + m20 * m21 = 0" and col02: "m00 * m02 + m10 * m12 + m20 * m22 = 0"
    and col12: "m01 * m02 + m11 * m12 + m21 * m22 = 0"
    and det: "m00 * (m11 * m22 - m12 * m21) - m01 * (m10 * m22 - m12 * m20) + m02 * (m10 * m21 - m11 * m20) = 1"
  shows "(m11 - m00 - m22 + 1) * (m00 - m11 - m22 + 1) = (m10 + m01) * (m10 + m01)"
    and "(m21 + m12) * (m00 - m11 - m22 + 1) = (m10 + m01) * (m20 + m02)"
    and "(m20 - m02) * (m00 - m11 - m22 + 1) = (m10 + m01) * (m12 - m21)"
    and "(m22 - m00 - m11 + 1) * (m00 - m11 - m22 + 1) = (m20 + m02) * (m20 + m02)"
    and "(m01 - m10) * (m00 - m11 - m22 + 1) = (m20 + m02) * (m12 - m21)"
    and "(m00 + m11 + m22 + 1) * (m00 - m11 - m22 + 1) = (m12 - m21) * (m12 - m21)"
    and "(m00 - m11 - m22 + 1) * (m11 - m00 - m22 + 1) = (m10 + m01) * (m10 + m01)"
    and "(m20 + m02) * (m11 - m00 - m22 + 1) = (m10 + m01) * (m21 + m12)"
    and "(m12 - m21) * (m11 - m00 - m22 + 1) = (m10 + m01) * (m20 - m02)"
    and "(m22 - m00 - m11 + 1) * (m11 - m00 - m22 + 1) = (m21 + m12) * (m21 + m12)"
    and "(m01 - m10) * (m11 - m00 - m22 + 1) = (m21 + m12) * (m20 - m02)"
    and "(m00 + m11 + m22 + 1) * (m11 - m00 - m22 + 1) = (m20 - m02) * (m20 - m02)"
    and "(m00 - m11 - m22 + 1) * (m22 - m00 - m11 + 1) = (m20 + m02) * (m20 + m02)"
    and "(m10 + m01) * (m22 - m00 - m11 + 1) = (m20 + m02) * (m21 + m12)"
    and "(m12 - m21) * (m22 - m00 - m11 + 1) = (m20 + m02) * (m01 - m10)"
    and "(m11 - m00 - m22 + 1) * (m22 - m00 - m11 + 1) = (m21 + m12) * (m21 + m12)"
    and "(m20 - m02) * (m22 - m00 - m11 + 1) = (m21 + m12) * (m01 - m10)"
    and "(m00 + m11 + m22 + 1) * (m22 - m00 - m11 + 1) = (m01 - m10) * (m01 - m10)"
    and "(m00 - m11 - m22 + 1) * (m00 + m11 + m22 + 1) = (m12 - m21) * (m12 - m21)"
    and "(m10 + m01) * (m00 + m11 + m22 + 1) = (m12 - m21) * (m20 - m02)"
    and "(m20 + m02) * (m00 + m11 + m22 + 1) = (m12 - m21) * (m01 - m10)"
    and "(m11 - m00 - m22 + 1) * (m00 + m11 + m22 + 1) = (m20 - m02) * (m20 - m02)"
    and "(m21 + m12) * (m00 + m11 + m22 + 1) = (m20 - m02) * (m01 - m10)"
    and "(m22 - m00 - m11 + 1) * (m00 + m11 + m22 + 1) = (m01 - m10) * (m01 - m10)"
proof -
  note cof = rotation_cofactors [OF assms]
  note row = rotation_rows [OF assms]
  show "(m11 - m00 - m22 + 1) * (m00 - m11 - m22 + 1) = (m10 + m01) * (m10 + m01)"
    using cof(9) col22 row(1) row(4) by algebra
  show "(m21 + m12) * (m00 - m11 - m22 + 1) = (m10 + m01) * (m20 + m02)"
    using cof(8) cof(6) col12 row(5) by algebra
  show "(m20 - m02) * (m00 - m11 - m22 + 1) = (m10 + m01) * (m12 - m21)"
    using cof(7) cof(3) col02 row(3) by algebra
  show "(m22 - m00 - m11 + 1) * (m00 - m11 - m22 + 1) = (m20 + m02) * (m20 + m02)"
    using cof(5) col00 col22 row(4) by algebra
  show "(m01 - m10) * (m00 - m11 - m22 + 1) = (m20 + m02) * (m12 - m21)"
    using cof(4) cof(2) col01 row(2) by algebra
  show "(m00 + m11 + m22 + 1) * (m00 - m11 - m22 + 1) = (m12 - m21) * (m12 - m21)"
    using cof(1) col11 col22 row(1) by algebra
  show "(m00 - m11 - m22 + 1) * (m11 - m00 - m22 + 1) = (m10 + m01) * (m10 + m01)"
    using cof(9) col22 row(1) row(4) by algebra
  show "(m20 + m02) * (m11 - m00 - m22 + 1) = (m10 + m01) * (m21 + m12)"
    using cof(7) cof(3) col02 row(3) by algebra
  show "(m12 - m21) * (m11 - m00 - m22 + 1) = (m10 + m01) * (m20 - m02)"
    using cof(8) cof(6) col12 row(5) by algebra
  show "(m22 - m00 - m11 + 1) * (m11 - m00 - m22 + 1) = (m21 + m12) * (m21 + m12)"
    using cof(1) col11 col22 row(1) by algebra
  show "(m01 - m10) * (m11 - m00 - m22 + 1) = (m21 + m12) * (m20 - m02)"
    using cof(4) cof(2) col01 row(2) by algebra
  show "(m00 + m11 + m22 + 1) * (m11 - m00 - m22 + 1) = (m20 - m02) * (m20 - m02)"
    using cof(5) col00 col22 row(4) by algebra
  show "(m00 - m11 - m22 + 1) * (m22 - m00 - m11 + 1) = (m20 + m02) * (m20 + m02)"
    using cof(5) col00 col22 row(4) by algebra
  show "(m10 + m01) * (m22 - m00 - m11 + 1) = (m20 + m02) * (m21 + m12)"
    using cof(4) cof(2) col01 row(2) by algebra
  show "(m12 - m21) * (m22 - m00 - m11 + 1) = (m20 + m02) * (m01 - m10)"
    using cof(8) cof(6) col12 row(5) by algebra
  show "(m11 - m00 - m22 + 1) * (m22 - m00 - m11 + 1) = (m21 + m12) * (m21 + m12)"
    using cof(1) col11 col22 row(1) by algebra
  show "(m20 - m02) * (m22 - m00 - m11 + 1) = (m21 + m12) * (m01 - m10)"
    using cof(7) cof(3) col02 row(3) by algebra
  show "(m00 + m11 + m22 + 1) * (m22 - m00 - m11 + 1) = (m01 - m10) * (m01 - m10)"
    using cof(9) col22 row(1) row(4) by algebra
  show "(m00 - m11 - m22 + 1) * (m00 + m11 + m22 + 1) = (m12 - m21) * (m12 - m21)"
    using cof(1) col11 col22 row(1) by algebra
  show "(m10 + m01) * (m00 + m11 + m22 + 1) = (m12 - m21) * (m20 - m02)"
    using cof(4) cof(2) col01 row(2) by algebra
  show "(m20 + m02) * (m00 + m11 + m22 + 1) = (m12 - m21) * (m01 - m10)"
    using cof(7) cof(3) col02 row(3) by algebra
  show "(m11 - m00 - m22 + 1) * (m00 + m11 + m22 + 1) = (m20 - m02) * (m20 - m02)"
    using cof(5) col00 col22 row(4) by algebra
  show "(m21 + m12) * (m00 + m11 + m22 + 1) = (m20 - m02) * (m01 - m10)"
    using cof(8) cof(6) col12 row(5) by algebra
  show "(m22 - m00 - m11 + 1) * (m00 + m11 + m22 + 1) = (m01 - m10) * (m01 - m10)"
    using cof(9) col22 row(1) row(4) by algebra
qed

lemma A4_entries:
  fixes m00 m01 m02 m10 m11 m12 m20 m21 m22 :: real
  assumes "rot = \<lparr>shape = [3, 3], flat = [m00, m01, m02, m10, m11, m12, m20, m21, m22]\<rparr>"
  shows "A4 rot 0 0 = m00 - m11 - m22 + 1"
    and "A4 rot 0 1 = m10 + m01"
    and "A4 rot 0 2 = m20 + m02"
    and "A4 rot 0 3 = m12 - m21"
    and "A4 rot 1 0 = m10 + m01"
    and "A4 rot 1 1 = m11 - m00 - m22 + 1"
    and "A4 rot 1 2 = m21 + m12"
    and "A4 rot 1 3 = m20 - m02"
    and "A4 rot 2 0 = m20 + m02"
    and "A4 rot 2 1 = m21 + m12"
    and "A4 rot 2 2 = m22 - m00 - m11 + 1"
    and "A4 rot 2 3 = m01 - m10"
    and "A4 rot 3 0 = m12 - m21"
    and "A4 rot 3 1 = m20 - m02"
    and "A4 rot 3 2 = m01 - m10"
    and "A4 rot 3 3 = m00 + m11 + m22 + 1"
  unfolding assms by (simp_all add: A4_def K3_def rot_at_def Let_def)

text \<open>
  A symmetric 4x4 matrix \<open>A\<close> of rank one and trace four, with a positive diagonal entry
  \<open>A k k\<close>: column \<open>k\<close> has squared length \<open>4 A k k\<close> and is an eigenvector of \<open>(A - 1) / 3\<close>
  for the eigenvalue one, and a unit eigenvector for the largest eigenvalue is a multiple
  of that column.
\<close>

lemma rank_one_top_eigenvector:
  fixes A :: "nat \<Rightarrow> nat \<Rightarrow> real" and e :: "nat \<Rightarrow> real"
  assumes pos: "0 < A k k" and k: "k < 4"
    and r1: "\<And>i j. i < 4 \<Longrightarrow> j < 4 \<Longrightarrow> A i j * A k k = A i k * A j k"
    and tr: "(\<Sum>i<4. A i i) = 4"
    and eig: "\<And>i. i < 4 \<Longrightarrow> (\<Sum>j<4. (A i j - (if i = j then 1 else 0)) / 3 * e j) = lam * e i"
    and unit: "(\<Sum>i<4. (e i)\<^sup>2) = 1"
    and top: "\<And>v mu. \<exists>i<4. v i \<noteq> 0 \<Longrightarrow>
        (\<And>i. i < 4 \<Longrightarrow> (\<Sum>j<4. (A i j - (if i = j then 1 else 0)) / 3 * v j) = mu * v i) \<Longrightarrow> mu \<le> lam"
  shows "(\<Sum>i<4. (A i k)\<^sup>2) = 4 * A k k \<and>
         (\<exists>c. c\<^sup>2 * (4 * A k k) = 1 \<and> (\<forall>i<4. e i = c * A i k))"
proof -
  have delta: "(\<Sum>j<4. (if i = j then 1 else 0) * v j) = v i" if "i < 4" for i and v :: "nat \<Rightarrow> real"
  proof -
    have "(\<Sum>j<4. (if i = j then 1 else 0) * v j) = (\<Sum>j<4. if i = j then v j else 0)"
      by (rule sum.cong) simp_all
    then show ?thesis using that by (simp add: sum.delta')
  qed
  have split: "(\<Sum>j<4. (A i j - (if i = j then 1 else 0)) / 3 * v j) = ((\<Sum>j<4. A i j * v j) - v i) / 3"
    if "i < 4" for i and v :: "nat \<Rightarrow> real"
  proof -
    have "(\<Sum>j<4. (A i j - (if i = j then 1 else 0)) / 3 * v j)
        = (\<Sum>j<4. (A i j * v j - (if i = j then 1 else 0) * v j) / 3)"
      by (rule sum.cong) (simp_all add: algebra_simps diff_divide_distrib)
    also have "\<dots> = (\<Sum>j<4. A i j * v j - (if i = j then 1 else 0) * v j) / 3"
      by (simp only: sum_divide_distrib)
    also have "\<dots> = ((\<Sum>j<4. A i j * v j) - (\<Sum>j<4. (if i = j then 1 else 0) * v j)) / 3"
      by (simp only: sum_subtractf)
    finally show ?thesis using delta [OF that] by simp
  qed
  have sq: "(A i k)\<^sup>2 = A k k * A i i" if "i < 4" for i
    using r1 [OF that that] by (simp add: power2_eq_square mult.commute)
  have n2: "(\<Sum>i<4. (A i k)\<^sup>2) = 4 * A k k"
  proof -
    have "(\<Sum>i<4. (A i k)\<^sup>2) = (\<Sum>i<4. A k k * A i i)"
      by (rule sum.cong) (simp_all add: sq)
    also have "\<dots> = A k k * (\<Sum>i<4. A i i)"
      by (simp add: sum_distrib_left)
    finally show ?thesis using tr by simp
  qed
  have Ax: "A k k * (\<Sum>j<4. A i j * v j) = A i k * (\<Sum>j<4. A j k * v j)"
    if "i < 4" for i and v :: "nat \<Rightarrow> real"
  proof -
    have "A k k * (\<Sum>j<4. A i j * v j) = (\<Sum>j<4. (A i j * A k k) * v j)"
      by (simp add: sum_distrib_left mult_ac)
    also have "\<dots> = (\<Sum>j<4. (A i k * A j k) * v j)"
      by (rule sum.cong) (simp_all add: r1 [OF that])
    also have "\<dots> = A i k * (\<Sum>j<4. A j k * v j)"
      by (simp add: sum_distrib_left mult_ac)
    finally show ?thesis .
  qed
  have Aa: "(\<Sum>j<4. A i j * A j k) = 4 * A i k" if "i < 4" for i
  proof -
    have "A k k * (\<Sum>j<4. A i j * A j k) = A i k * (\<Sum>j<4. (A j k)\<^sup>2)"
      using Ax [OF that, of "\<lambda>j. A j k"] by (simp add: power2_eq_square)
    also have "\<dots> = A k k * (4 * A i k)"
      by (simp add: n2)
    finally show ?thesis using pos by simp
  qed
  have "1 \<le> lam"
  proof (rule top [of "\<lambda>j. A j k" 1])
    show "\<exists>i<4. A i k \<noteq> 0" using pos k by (intro exI [of _ k]) simp
  next
    fix i :: nat assume i: "i < 4"
    show "(\<Sum>j<4. (A i j - (if i = j then 1 else 0)) / 3 * A j k) = 1 * A i k"
      by (simp only: split [OF i] Aa [OF i]) simp
  qed
  then have mu: "0 < 3 * lam + 1" by simp
  define d where "d = (\<Sum>j<4. A j k * e j)"
  define c where "c = d / (A k k * (3 * lam + 1))"
  have Ae: "(\<Sum>j<4. A i j * e j) = (3 * lam + 1) * e i" if "i < 4" for i
    using eig [OF that] by (simp only: split [OF that]) (simp add: algebra_simps)
  have ei: "e i = c * A i k" if "i < 4" for i
  proof -
    have "A k k * ((3 * lam + 1) * e i) = A i k * d"
      using Ax [OF that, of e] by (simp add: Ae [OF that] d_def)
    then have "e i * (A k k * (3 * lam + 1)) = d * A i k"
      by (simp add: mult_ac)
    moreover have "A k k * (3 * lam + 1) \<noteq> 0" using pos mu by simp
    ultimately show ?thesis
      by (simp add: c_def field_simps)
  qed
  have "1 = (\<Sum>i<4. (c * A i k)\<^sup>2)"
    unfolding unit [symmetric] by (rule sum.cong) (simp_all add: ei)
  also have "\<dots> = c\<^sup>2 * (\<Sum>i<4. (A i k)\<^sup>2)"
    by (simp add: power_mult_distrib sum_distrib_left)
  finally have "c\<^sup>2 * (4 * A k k) = 1" by (simp add: n2)
  then show ?thesis using ei n2 by blast
qed


lemma lt4: "i < 4 \<Longrightarrow> i = 0 \<or> i = 1 \<or> i = 2 \<or> i = (3 :: nat)"
  by arith

lemma sum4: "(\<Sum>i<4. f i) = f 0 + f 1 + f 2 + f 3" for f :: "nat \<Rightarrow> real"
  by (simp add: eval_nat_numeral)

lemma sum3: "(\<Sum>i<3. f i) = f 0 + f 1 + f 2" for f :: "nat \<Rightarrow> real"
  by (simp add: eval_nat_numeral)

lemma rotation_rank_one:
  fixes m00 m01 m02 m10 m11 m12 m20 m21 m22 :: real
  assumes rot: "rot = \<lparr>shape = [3, 3], flat = [m00, m01, m02, m10, m11, m12, m20, m21, m22]\<rparr>"
    and col00: "m00 * m00 + m10 * m10 + m20 * m20 = 1" and col11: "m01 * m01 + m11 * m11 + m21 * m21 = 1"
    and col22: "m02 * m02 + m12 * m12 + m22 * m22 = 1"
    and col01: "m00 * m01 + m10 * m11 + m20 * m21 = 0" and col02: "m00 * m02 + m10 * m12 + m20 * m22 = 0"
    and col12: "m01 * m02 + m11 * m12 + m21 * m22 = 0"
    and det: "m00 * (m11 * m22 - m12 * m21) - m01 * (m10 * m22 - m12 * m20) + m02 * (m10 * m21 - m11 * m20) = 1"
    and i: "i < 4" and j: "j < 4" and k: "k < 4"
  shows "A4 rot i j * A4 rot k k = A4 rot i k * A4 rot j k"
proof -
  note mn = rotation_minors [OF col00 col11 col22 col01 col02 col12 det]
  note sw = mn [THEN trans, OF mult.commute]
  note ent = A4_entries [OF rot]
  show ?thesis
    using lt4 [OF i] lt4 [OF j] lt4 [OF k]
    by (elim disjE, simp_all only: ent) (rule mn sw refl mult.commute)+
qed

lemma rotation_trace:
  fixes m00 m01 m02 m10 m11 m12 m20 m21 m22 :: real
  assumes rot: "rot = \<lparr>shape = [3, 3], flat = [m00, m01, m02, m10, m11, m12, m20, m21, m22]\<rparr>"
  shows "(\<Sum>i<4. A4 rot i i) = 4"
  by (simp only: sum4 A4_entries [OF rot])

lemma eigenvector_is_column:
  fixes m00 m01 m02 m10 m11 m12 m20 m21 m22 :: real
  assumes rot: "rot = \<lparr>shape = [3, 3], flat = [m00, m01, m02, m10, m11, m12, m20, m21, m22]\<rparr>"
    and col00: "m00 * m00 + m10 * m10 + m20 * m20 = 1" and col11: "m01 * m01 + m11 * m11 + m21 * m21 = 1"
    and col22: "m02 * m02 + m12 * m12 + m22 * m22 = 1"
    and col01: "m00 * m01 + m10 * m11 + m20 * m21 = 0" and col02: "m00 * m02 + m10 * m12 + m20 * m22 = 0"
    and col12: "m01 * m02 + m11 * m12 + m21 * m22 = 0"
    and det: "m00 * (m11 * m22 - m12 * m21) - m01 * (m10 * m22 - m12 * m20) + m02 * (m10 * m21 - m11 * m20) = 1"
    and te: "top_eigenvector (K3 rot) e" and k: "k < 4" and pos: "0 < A4 rot k k"
  shows "(\<Sum>i<4. (A4 rot i k)\<^sup>2) = 4 * A4 rot k k \<and>
         (\<exists>c. c\<^sup>2 * (4 * A4 rot k k) = 1 \<and> (\<forall>i<4. e ! i = c * A4 rot i k))"
proof -
  have K: "(A4 rot i j - (if i = j then 1 else 0)) / 3 = K3 rot ! i ! j" for i j
    by (simp add: A4_def)
  from te obtain lam where unit: "(\<Sum>i<4. (e ! i)\<^sup>2) = 1"
    and eig: "\<And>i. i < 4 \<Longrightarrow> (\<Sum>j<4. K3 rot ! i ! j * e ! j) = lam * e ! i"
    and top: "\<And>v mu. length v = 4 \<Longrightarrow> \<exists>i<4. v ! i \<noteq> 0 \<Longrightarrow>
        (\<And>i. i < 4 \<Longrightarrow> (\<Sum>j<4. K3 rot ! i ! j * v ! j) = mu * v ! i) \<Longrightarrow> mu \<le> lam"
    unfolding top_eigenvector_def by blast
  show ?thesis
  proof (rule rank_one_top_eigenvector [where A = "A4 rot" and e = "\<lambda>i. e ! i" and lam = lam, OF pos k])
    fix i j :: nat assume "i < 4" "j < 4"
    then show "A4 rot i j * A4 rot k k = A4 rot i k * A4 rot j k"
      using k by (rule rotation_rank_one [OF rot col00 col11 col22 col01 col02 col12 det])
  next
    show "(\<Sum>i<4. A4 rot i i) = 4" by (rule rotation_trace [OF rot])
  next
    fix i :: nat assume "i < 4"
    then show "(\<Sum>j<4. (A4 rot i j - (if i = j then 1 else 0)) / 3 * e ! j) = lam * e ! i"
      unfolding K by (rule eig)
  next
    show "(\<Sum>i<4. (e ! i)\<^sup>2) = 1" by (rule unit)
  next
    fix v :: "nat \<Rightarrow> real" and mu
    assume nz: "\<exists>i<4. v i \<noteq> 0"
      and ev: "\<And>i. i < 4 \<Longrightarrow> (\<Sum>j<4. (A4 rot i j - (if i = j then 1 else 0)) / 3 * v j) = mu * v i"
    let ?v = "map v [0 ..< 4]"
    have nth: "?v ! i = v i" if "i < 4" for i
      using that by simp
    show "mu \<le> lam"
    proof (rule top [of ?v])
      show "length ?v = 4" by simp
      show "\<exists>i<4. ?v ! i \<noteq> 0" using nz nth by auto
      fix i :: nat assume i: "i < 4"
      have "(\<Sum>j<4. K3 rot ! i ! j * ?v ! j) = (\<Sum>j<4. K3 rot ! i ! j * v j)"
        by (rule sum.cong) (simp_all only: nth lessThan_iff)
      then show "(\<Sum>j<4. K3 rot ! i ! j * ?v ! j) = mu * ?v ! i"
        using ev [OF i] unfolding K by (simp add: nth [OF i])
    qed
  qed
qed


text \<open>
  The four entries that the direct algorithm writes into \<open>q\<close> are, up to one sign and the
  order, column \<open>k\<close> of \<open>3 K3 + 1\<close>, for \<open>k\<close> the index of the largest candidate.
\<close>

lemma unit_multiple:
  fixes c n :: real
  assumes "c\<^sup>2 * n = 1"
  shows "0 < n" and "c = 1 / sqrt n \<or> c = - (1 / sqrt n)"
proof -
  show n: "0 < n"
  proof (rule ccontr)
    assume "\<not> 0 < n"
    then have "c\<^sup>2 * n \<le> 0" by (simp add: mult_nonneg_nonpos)
    with assms show False by simp
  qed
  have "(c * sqrt n)\<^sup>2 = 1"
    using assms n by (simp add: power_mult_distrib)
  then have "c * sqrt n = 1 \<or> c * sqrt n = - 1"
    by (simp add: power2_eq_1_iff)
  moreover have "sqrt n \<noteq> 0" using n by simp
  ultimately show "c = 1 / sqrt n \<or> c = - (1 / sqrt n)"
    by (auto simp add: field_simps)
qed

lemma direct_agrees:
  fixes t c :: real
  assumes t: "t = 1 \<or> t = - 1"
    and c: "c\<^sup>2 * (a0\<^sup>2 + a1\<^sup>2 + a2\<^sup>2 + a3\<^sup>2) = 1"
    and q: "q0 = - t * a3" "q1 = t * a0" "q2 = t * a1" "q3 = t * a2"
    and e: "e0 = c * a0" "e1 = c * a1" "e2 = c * a2" "e3 = c * a3"
    and s: "s = sqrt (q0\<^sup>2 + q1\<^sup>2 + q2\<^sup>2 + q3\<^sup>2)"
  shows "norm_q (quaternion (q0 / s) (q1 / s) (q2 / s) (q3 / s)) = 1"
    and "quaternion e3 (- e0) (- e1) (- e2) = quaternion (q0 / s) (q1 / s) (q2 / s) (q3 / s) \<or>
         quaternion e3 (- e0) (- e1) (- e2) = negate (quaternion (q0 / s) (q1 / s) (q2 / s) (q3 / s))"
proof -
  define n where "n = a0\<^sup>2 + a1\<^sup>2 + a2\<^sup>2 + a3\<^sup>2"
  have t2: "t\<^sup>2 = 1" using t by auto
  have qn: "q0\<^sup>2 + q1\<^sup>2 + q2\<^sup>2 + q3\<^sup>2 = n"
    unfolding q n_def by (simp add: power_mult_distrib t2)
  have n: "0 < n" and cs: "c = 1 / sqrt n \<or> c = - (1 / sqrt n)"
    using unit_multiple [of c n] c by (simp_all add: n_def)
  have sn: "s = sqrt n" by (simp add: s qn)
  then have s0: "s \<noteq> 0" and s2: "s\<^sup>2 = n" using n by simp_all
  have "norm_q (quaternion (q0 / s) (q1 / s) (q2 / s) (q3 / s))
      = (q0\<^sup>2 + q1\<^sup>2 + q2\<^sup>2 + q3\<^sup>2) / s\<^sup>2"
    by (simp add: norm_q_def power_divide add_divide_distrib)
  then show "norm_q (quaternion (q0 / s) (q1 / s) (q2 / s) (q3 / s)) = 1"
    using n by (simp add: qn s2)
  show "quaternion e3 (- e0) (- e1) (- e2) = quaternion (q0 / s) (q1 / s) (q2 / s) (q3 / s) \<or>
         quaternion e3 (- e0) (- e1) (- e2) = negate (quaternion (q0 / s) (q1 / s) (q2 / s) (q3 / s))"
    using t cs unfolding q e sn by (auto simp add: negate_def)
qed

lemma argmax4:
  "argmax [a, b, c, d] < 4"
  "argmax [a, b, c, d] = 0 \<Longrightarrow> b \<le> a \<and> c \<le> a \<and> d \<le> a"
  "argmax [a, b, c, d] = 1 \<Longrightarrow> a \<le> b \<and> c \<le> b \<and> d \<le> b"
  "argmax [a, b, c, d] = 2 \<Longrightarrow> a \<le> c \<and> b \<le> c \<and> d \<le> c"
  "argmax [a, b, c, d] = 3 \<Longrightarrow> a \<le> d \<and> b \<le> d \<and> c \<le> d"
  by (auto simp add: argmax_def split: if_splits)

lemma list9: "length xs = 9 \<Longrightarrow> \<exists>a b c d e f g h i. xs = [a, b, c, d, e, f, g, h, i]"
  by (auto simp add: eval_nat_numeral length_Suc_conv)

lemma list4: "length xs = 4 \<Longrightarrow> \<exists>a b c d. xs = [a, b, c, d]"
  by (auto simp add: eval_nat_numeral length_Suc_conv)

lemma from_rotation_matrix_direct_eval:
  fixes m00 m01 m02 m10 m11 m12 m20 m21 m22 :: real
  assumes rot: "rot = \<lparr>shape = [3, 3], flat = [m00, m01, m02, m10, m11, m12, m20, m21, m22]\<rparr>"
  defines "k \<equiv> argmax [m00, m11, m22, m00 + m11 + m22]"
  defines "q \<equiv> (if k = 0 then [m21 - m12, 1 + m00 - m11 - m22, m01 + m10, m02 + m20]
                 else if k = 1 then [m02 - m20, m10 + m01, 1 - m00 + m11 - m22, m12 + m21]
                 else if k = 2 then [m10 - m01, m20 + m02, m21 + m12, 1 - m00 - m11 + m22]
                 else [1 + m00 + m11 + m22, m21 - m12, m02 - m20, m10 - m01])"
  defines "s \<equiv> sqrt ((q ! 0)\<^sup>2 + (q ! 1)\<^sup>2 + (q ! 2)\<^sup>2 + (q ! 3)\<^sup>2)"
  shows "from_rotation_matrix_direct rot =
           Inr (Scalar (quaternion (q ! 0 / s) (q ! 1 / s) (q ! 2 / s) (q ! 3 / s)))"
proof -
  have "k < 4" unfolding k_def by (rule argmax4)
  then have "k = 0 \<or> k = 1 \<or> k = 2 \<or> k = 3" by arith
  then show ?thesis
    unfolding s_def q_def
    by (elim disjE)
      (simp_all add: from_rotation_matrix_direct_def rot rot_at_def k_def [symmetric] Let_def
        as_quat_array_def ascontiguousarray_def)
qed


text \<open>
  C3. Let \<open>rot\<close> be an orthogonal rotation matrix (orthonormal columns, determinant one),
  and let the eigensolver return, for the matrix \<^verbatim>\<open>K3.T\<close>, a unit eigenvector for its
  largest eigenvalue. Then the eigenvector algorithm (\<^verbatim>\<open>nonorthogonal=True\<close>) and the direct
  algorithm (\<^verbatim>\<open>nonorthogonal=False\<close>, or no \<^verbatim>\<open>scipy.linalg\<close>) both return a quaternion of
  norm one, and the first result is the second or its negation. Numbers are real here, so
  the norms are exactly one.
\<close>

theorem from_rotation_matrix_agree:
  assumes R: "is_rotation rot"
    and E: "eigh (transpose (K3 rot)) = Inr e"
    and T: "top_eigenvector (transpose (K3 rot)) e"
  shows "\<exists>qe qd. from_rotation_matrix (Some eigh) rot True = Inr (Scalar qe) \<and>
           from_rotation_matrix (Some eigh) rot False = Inr (Scalar qd) \<and>
           from_rotation_matrix None rot True = Inr (Scalar qd) \<and>
           norm_q qe = 1 \<and> norm_q qd = 1 \<and> (qe = qd \<or> qe = negate qd)"
proof -
  from R have sh: "shape rot = [3, 3]" and len: "length (flat rot) = 9"
    and orth: "\<And>i j. i < 3 \<Longrightarrow> j < 3 \<Longrightarrow>
        (\<Sum>k<3. rot_at rot k i * rot_at rot k j) = (if i = j then 1 else 0)"
    and det1: "det3 rot = 1"
    by (simp_all add: is_rotation_def)
  from list9 [OF len] obtain m00 m01 m02 m10 m11 m12 m20 m21 m22
    where fl: "flat rot = [m00, m01, m02, m10, m11, m12, m20, m21, m22]"
    by blast
  have rot: "rot = \<lparr>shape = [3, 3], flat = [m00, m01, m02, m10, m11, m12, m20, m21, m22]\<rparr>"
    using sh fl by (cases rot) simp
  have at: "rot_at rot 0 0 = m00" "rot_at rot 0 1 = m01" "rot_at rot 0 2 = m02"
    "rot_at rot 1 0 = m10" "rot_at rot 1 1 = m11" "rot_at rot 1 2 = m12"
    "rot_at rot 2 0 = m20" "rot_at rot 2 1 = m21" "rot_at rot 2 2 = m22"
    by (simp_all add: rot_at_def fl)
  have col00: "m00 * m00 + m10 * m10 + m20 * m20 = 1"
    using orth [of 0 0] by (simp only: sum3 at) simp
  have col11: "m01 * m01 + m11 * m11 + m21 * m21 = 1"
    using orth [of 1 1] by (simp only: sum3 at) simp
  have col22: "m02 * m02 + m12 * m12 + m22 * m22 = 1"
    using orth [of 2 2] by (simp only: sum3 at) simp
  have col01: "m00 * m01 + m10 * m11 + m20 * m21 = 0"
    using orth [of 0 1] by (simp only: sum3 at) simp
  have col02: "m00 * m02 + m10 * m12 + m20 * m22 = 0"
    using orth [of 0 2] by (simp only: sum3 at) simp
  have col12: "m01 * m02 + m11 * m12 + m21 * m22 = 0"
    using orth [of 1 2] by (simp only: sum3 at) simp
  have det: "m00 * (m11 * m22 - m12 * m21) - m01 * (m10 * m22 - m12 * m20)
      + m02 * (m10 * m21 - m11 * m20) = 1"
    using det1 by (simp only: det3_def at)
  note ent = A4_entries [OF rot]
  from T have T': "top_eigenvector (K3 rot) e"
    by (simp only: transpose_K3)
  then have "length e = 4" and unit: "(\<Sum>i<4. (e ! i)\<^sup>2) = 1"
    by (simp_all add: top_eigenvector_def)
  from list4 [OF this(1)] obtain e0 e1 e2 e3 where e: "e = [e0, e1, e2, e3]"
    by blast
  define qe where "qe = quaternion e3 (- e0) (- e1) (- e2)"
  have eigen: "from_rotation_matrix (Some eigh) rot True = Inr (Scalar qe)"
    by (simp add: from_rotation_matrix_def from_rotation_matrix_eigh_def E e qe_def)
  define k where "k = argmax [m00, m11, m22, m00 + m11 + m22]"
  define q where "q = (if k = 0 then [m21 - m12, 1 + m00 - m11 - m22, m01 + m10, m02 + m20]
                 else if k = 1 then [m02 - m20, m10 + m01, 1 - m00 + m11 - m22, m12 + m21]
                 else if k = 2 then [m10 - m01, m20 + m02, m21 + m12, 1 - m00 - m11 + m22]
                 else [1 + m00 + m11 + m22, m21 - m12, m02 - m20, m10 - m01])"
  define s where "s = sqrt ((q ! 0)\<^sup>2 + (q ! 1)\<^sup>2 + (q ! 2)\<^sup>2 + (q ! 3)\<^sup>2)"
  define qd where "qd = quaternion (q ! 0 / s) (q ! 1 / s) (q ! 2 / s) (q ! 3 / s)"
  have direct: "from_rotation_matrix_direct rot = Inr (Scalar qd)"
    unfolding qd_def s_def q_def k_def by (rule from_rotation_matrix_direct_eval [OF rot])
  have k4: "k < 4" unfolding k_def by (rule argmax4)
  then have kc: "k = 0 \<or> k = 1 \<or> k = 2 \<or> k = 3" by arith
  have pos: "0 < A4 rot k k"
    using kc
  proof (elim disjE)
    assume "k = 0"
    with argmax4(2) [of m00 m11 m22 "m00 + m11 + m22"] show ?thesis
      by (simp only: ent k_def) linarith
  next
    assume "k = 1"
    with argmax4(3) [of m00 m11 m22 "m00 + m11 + m22"] show ?thesis
      by (simp only: ent k_def) linarith
  next
    assume "k = 2"
    with argmax4(4) [of m00 m11 m22 "m00 + m11 + m22"] show ?thesis
      by (simp only: ent k_def) linarith
  next
    assume "k = 3"
    with argmax4(5) [of m00 m11 m22 "m00 + m11 + m22"] show ?thesis
      by (simp only: ent k_def) linarith
  qed
  from eigenvector_is_column [OF rot col00 col11 col22 col01 col02 col12 det T' k4 pos]
  obtain c where n2: "(\<Sum>i<4. (A4 rot i k)\<^sup>2) = 4 * A4 rot k k"
    and c: "c\<^sup>2 * (4 * A4 rot k k) = 1"
    and ei: "\<And>i. i < 4 \<Longrightarrow> e ! i = c * A4 rot i k"
    by blast
  have c': "c\<^sup>2 * ((A4 rot 0 k)\<^sup>2 + (A4 rot 1 k)\<^sup>2 + (A4 rot 2 k)\<^sup>2 + (A4 rot 3 k)\<^sup>2) = 1"
    using c n2 by (simp only: sum4)
  have es: "e0 = c * A4 rot 0 k" "e1 = c * A4 rot 1 k" "e2 = c * A4 rot 2 k" "e3 = c * A4 rot 3 k"
    using ei [of 0] ei [of 1] ei [of 2] ei [of 3] by (simp_all add: e)
  define t :: real where "t = (if k = 3 then - 1 else 1)"
  have t: "t = 1 \<or> t = - 1" by (simp add: t_def)
  have "q ! 0 = - t * A4 rot 3 k \<and> q ! 1 = t * A4 rot 0 k \<and> q ! 2 = t * A4 rot 1 k \<and>
    q ! 3 = t * A4 rot 2 k"
    using kc
  proof (elim disjE)
    assume k: "k = 0"
    have "q = [m21 - m12, 1 + m00 - m11 - m22, m01 + m10, m02 + m20]" "t = 1"
      by (simp_all add: q_def t_def k)
    then show ?thesis
      unfolding k by (simp only: ent) simp
  next
    assume k: "k = 1"
    have "q = [m02 - m20, m10 + m01, 1 - m00 + m11 - m22, m12 + m21]" "t = 1"
      by (simp_all add: q_def t_def k)
    then show ?thesis
      unfolding k by (simp only: ent) simp
  next
    assume k: "k = 2"
    have "q = [m10 - m01, m20 + m02, m21 + m12, 1 - m00 - m11 + m22]" "t = 1"
      by (simp_all add: q_def t_def k)
    then show ?thesis
      unfolding k by (simp only: ent) simp
  next
    assume k: "k = 3"
    have "q = [1 + m00 + m11 + m22, m21 - m12, m02 - m20, m10 - m01]" "t = - 1"
      by (simp_all add: q_def t_def k)
    then show ?thesis
      unfolding k by (simp only: ent) simp
  qed
  then have qs: "q ! 0 = - t * A4 rot 3 k" "q ! 1 = t * A4 rot 0 k" "q ! 2 = t * A4 rot 1 k"
    "q ! 3 = t * A4 rot 2 k"
    by simp_all
  from direct_agrees [OF t c' qs es s_def]
  have "norm_q qd = 1" and "qe = qd \<or> qe = negate qd"
    by (simp_all only: qd_def qe_def)
  moreover have "norm_q qe = 1"
    using unit by (simp add: qe_def norm_q_def e sum4)
  moreover have "from_rotation_matrix (Some eigh) rot False = Inr (Scalar qd)"
    "from_rotation_matrix None rot True = Inr (Scalar qd)"
    by (simp_all add: from_rotation_matrix_def direct)
  ultimately show ?thesis
    using eigen by blast
qed


lemma all_lt4: "(\<forall>i<4. P i) \<longleftrightarrow> P 0 \<and> P 1 \<and> P 2 \<and> P (3 :: nat)"
  using lt4 by auto

lemma ex_lt4: "(\<exists>i<4. P i) \<longleftrightarrow> P 0 \<or> P 1 \<or> P 2 \<or> P (3 :: nat)"
proof
  assume "\<exists>i<4. P i"
  then obtain i where i: "i < 4" "P i" by blast
  from lt4 [OF i(1)] i(2) show "P 0 \<or> P 1 \<or> P 2 \<or> P 3" by auto
next
  have "(0 :: nat) < 4" "(1 :: nat) < 4" "(2 :: nat) < 4" "(3 :: nat) < 4" by simp_all
  moreover assume "P 0 \<or> P 1 \<or> P 2 \<or> P 3"
  ultimately show "\<exists>i<4. P i" by blast
qed

lemma all_lt3: "(\<forall>i<3. P i) \<longleftrightarrow> P 0 \<and> P 1 \<and> P (2 :: nat)"
proof -
  have "i < 3 \<Longrightarrow> i = 0 \<or> i = 1 \<or> i = 2" for i :: nat by arith
  then show ?thesis by auto
qed

theorem from_rotation_matrix_agree_witness:
  "is_rotation \<lparr>shape = [3, 3], flat = [1, 0, 0, 0, - 1, 0, 0, 0, - 1]\<rparr> \<and>
   top_eigenvector (transpose (K3 \<lparr>shape = [3, 3], flat = [1, 0, 0, 0, - 1, 0, 0, 0, - 1]\<rparr>))
     [1, 0, 0, 0] \<and>
   from_rotation_matrix (Some (\<lambda>K. Inr [1, 0, 0, 0]))
     \<lparr>shape = [3, 3], flat = [1, 0, 0, 0, - 1, 0, 0, 0, - 1]\<rparr> True
     = Inr (Scalar (quaternion 0 (- 1) 0 0)) \<and>
   from_rotation_matrix None \<lparr>shape = [3, 3], flat = [1, 0, 0, 0, - 1, 0, 0, 0, - 1]\<rparr> True
     = Inr (Scalar (quaternion 0 1 0 0)) \<and>
   (\<exists>qe qd. from_rotation_matrix (Some (\<lambda>K. Inr [1, 0, 0, 0]))
        \<lparr>shape = [3, 3], flat = [1, 0, 0, 0, - 1, 0, 0, 0, - 1]\<rparr> True = Inr (Scalar qe) \<and>
      from_rotation_matrix (Some (\<lambda>K. Inr [1, 0, 0, 0]))
        \<lparr>shape = [3, 3], flat = [1, 0, 0, 0, - 1, 0, 0, 0, - 1]\<rparr> False = Inr (Scalar qd) \<and>
      from_rotation_matrix None
        \<lparr>shape = [3, 3], flat = [1, 0, 0, 0, - 1, 0, 0, 0, - 1]\<rparr> True = Inr (Scalar qd) \<and>
      norm_q qe = 1 \<and> norm_q qd = 1 \<and> (qe = qd \<or> qe = negate qd))"
proof -
  let ?rot = "\<lparr>shape = [3, 3], flat = [1, 0, 0, 0, - 1, 0, 0, 0, - 1 :: real]\<rparr>"
  let ?eigh = "\<lambda>K :: real list list. (Inr [1, 0, 0, 0] :: error + real list)"
  have K: "K3 ?rot = [[1, 0, 0, 0], [0, - (1 / 3), 0, 0], [0, 0, - (1 / 3), 0], [0, 0, 0, - (1 / 3)]]"
    by (simp add: K3_def rot_at_def Let_def)
  have R: "is_rotation ?rot"
    unfolding is_rotation_def all_lt3 sum3 by (simp add: rot_at_def det3_def)
  have T: "top_eigenvector (transpose (K3 ?rot)) [1, 0, 0, 0]"
    unfolding transpose_K3 top_eigenvector_def
  proof (intro conjI)
    show "length [1, 0, 0, 0 :: real] = 4" by simp
    show "(\<Sum>i<4. ([1, 0, 0, 0 :: real] ! i)\<^sup>2) = 1" by (simp add: sum4)
    have 1: "\<forall>i<4. (\<Sum>j<4. K3 ?rot ! i ! j * [1, 0, 0, 0] ! j) = 1 * [1, 0, 0, 0] ! i"
      unfolding all_lt4 sum4 K by simp
    have 2: "mu \<le> 1"
      if a: "length v = 4 \<and> (\<exists>i<4. v ! i \<noteq> 0) \<and>
        (\<forall>i<4. (\<Sum>j<4. K3 ?rot ! i ! j * v ! j) = mu * v ! i)" for v mu
    proof -
      from a obtain a b c d where v: "v = [a, b, c, d]" using list4 by blast
      from a have "a \<noteq> 0 \<or> b \<noteq> 0 \<or> c \<noteq> 0 \<or> d \<noteq> 0"
        unfolding ex_lt4 v by simp
      moreover from a have "a = mu * a" "- (b / 3) = mu * b" "- (c / 3) = mu * c"
        "- (d / 3) = mu * d"
        unfolding all_lt4 sum4 K v by simp_all
      moreover have "mu = - (1 / 3)" if "x \<noteq> 0" "- (x / 3) = mu * x" for x :: real
      proof -
        from that(2) have "x * (mu + 1 / 3) = 0" by (simp add: algebra_simps)
        with that(1) show ?thesis by simp
      qed
      moreover have "mu = 1" if "x \<noteq> 0" "x = mu * x" for x :: real
      proof -
        from that(2) have "x * (mu - 1) = 0" by (simp add: algebra_simps)
        with that(1) show ?thesis by simp
      qed
      ultimately have "mu = 1 \<or> mu = - (1 / 3)"
        by blast
      then show "mu \<le> 1" by auto
    qed
    from 1 2 show "\<exists>lam. (\<forall>i<4. (\<Sum>j<4. K3 ?rot ! i ! j * [1, 0, 0, 0] ! j) = lam * [1, 0, 0, 0] ! i) \<and>
        (\<forall>v mu. length v = 4 \<and> (\<exists>i<4. v ! i \<noteq> 0) \<and>
            (\<forall>i<4. (\<Sum>j<4. K3 ?rot ! i ! j * v ! j) = mu * v ! i) \<longrightarrow> mu \<le> lam)"
      by blast
  qed
  have E: "?eigh (transpose (K3 ?rot)) = Inr [1, 0, 0, 0]" by simp
  have 1: "from_rotation_matrix (Some ?eigh) ?rot True = Inr (Scalar (quaternion 0 (- 1) 0 0))"
    by (simp add: from_rotation_matrix_def from_rotation_matrix_eigh_def)
  have 2: "from_rotation_matrix None ?rot True = Inr (Scalar (quaternion 0 1 0 0))"
    by (simp add: from_rotation_matrix_def from_rotation_matrix_direct_def rot_at_def argmax_def
        Let_def as_quat_array_def ascontiguousarray_def)
  show ?thesis
    using R T 1 2 from_rotation_matrix_agree [OF R E T] by blast
qed

section \<open>Properties of the axis-angle conversions\<close>

text \<open>
  C7. The specification and the docstring give the rotation vector the shape of the
  input with one more axis of length three: shape \<open>(3,)\<close> for a scalar quaternion. In the
  source the float view of \<open>2 log(normalize(q))\<close> of a scalar has shape \<open>(1, 4)\<close>, so the
  result has shape \<open>(1, 3)\<close>. Its entries are the vector part of \<open>2 log(normalize(q))\<close>,
  whatever the logarithm and the normalisation are.
\<close>

theorem as_rotation_vector_scalar:
  "as_rotation_vector lg nm (Scalar q) =
     Inr \<lparr>shape = [1, 3], flat = [2 * q_x (lg (nm q)), 2 * q_y (lg (nm q)), 2 * q_z (lg (nm q))]\<rparr>"
  by (simp add: as_rotation_vector_def as_float_array_eq ellipsis_from_def components_def
      scalar_multiply_def)

text \<open>
  C10. The zero rotation vector gives the quaternion scalar \<open>(1, 0, 0, 0)\<close>, and no error:
  the source builds the quaternion \<open>(0, 0, 0, 0)\<close> and takes its exponential, and the
  exponential of the specification is \<open>(1, 0, 0, 0)\<close> there for every direction \<open>u\<close>
  chosen for the zero vector.
\<close>

theorem from_rotation_vector_zero:
  "from_rotation_vector (spec_exp u) \<lparr>shape = [3], flat = [0, 0, 0]\<rparr> = Inr (Scalar one)"
  by (cases u) (simp add: from_rotation_vector_def as_quat_array_def ascontiguousarray_def
      spec_exp_def one_def Let_def)

section \<open>Properties of the Euler angles\<close>

text \<open>
  For a quaternion scalar or a contiguous array of quaternions, the result has the shape
  of the input with one more axis of length three, and the row of every element
  \<open>(w, x, y, z)\<close> is \<open>atan2(z, w) + atan2(-x, y)\<close>, \<open>2 acos(sqrt((w\<^sup>2 + z\<^sup>2) / n))\<close>,
  \<open>atan2(z, w) - atan2(-x, y)\<close>, computed in double arithmetic (whatever the norm is). For
  a strided array the call raises a value error.
\<close>

lemma as_euler_angles_formulas:
  "(layout_of q = Contiguous \<longrightarrow>
      as_euler_angles rnd q =
        Inr \<lparr>shape = shape_of q @ [3], flat = concat (map (spec_euler rnd) (elements q))\<rparr>) \<and>
   (layout_of q = Strided \<longrightarrow> as_euler_angles rnd q = Inl ValueError)"
proof (intro conjI impI)
  assume l: "layout_of q = Contiguous"
  let ?qs = "elements q"
  let ?f = "\<lparr>shape = shape (snd (atleast_1d q)) @ [4], flat = concat (map components ?qs)\<rparr>"
  let ?c = "\<lambda>k. ellipsis_at ?f k"
  let ?n = "map (qnorm rnd) ?qs"
  let ?idx = "[0 ..< length ?qs]"
  let ?alpha = "map (\<lambda>i. fadd rnd (farctan2 rnd (?c 3 ! i) (?c 0 ! i))
                            (farctan2 rnd (fneg (?c 1 ! i)) (?c 2 ! i))) ?idx"
  let ?beta = "map (\<lambda>i. fmul rnd (Finite 2)
                           (farccos rnd (fsqrt rnd
                              (fdiv rnd (fadd rnd (fmul rnd (?c 0 ! i) (?c 0 ! i))
                                           (fmul rnd (?c 3 ! i) (?c 3 ! i)))
                                 (?n ! i))))) ?idx"
  let ?gamma = "map (\<lambda>i. fsub rnd (farctan2 rnd (?c 3 ! i) (?c 0 ! i))
                            (farctan2 rnd (fneg (?c 1 ! i)) (?c 2 ! i))) ?idx"
  have f: "as_float_array q = Inr ?f"
    using l by (rule as_float_array_eq)
  have c: "?c k = map (\<lambda>q. components q ! k) ?qs" for k
    by (rule ellipsis_at_components)
  have "map (\<lambda>i. [?alpha ! i, ?beta ! i, ?gamma ! i]) ?idx = map (spec_euler rnd) ?qs"
  proof (rule map_index_eq)
    fix i assume i: "i < length ?qs"
    obtain w x y z where q: "?qs ! i = quaternion w x y z" by (cases "?qs ! i")
    show "[?alpha ! i, ?beta ! i, ?gamma ! i] = spec_euler rnd (?qs ! i)"
      using i by (simp add: c q components_def spec_euler_def Let_def)
  qed
  then show "as_euler_angles rnd q =
      Inr \<lparr>shape = shape_of q @ [3], flat = concat (map (spec_euler rnd) (elements q))\<rparr>"
    by (simp add: as_euler_angles_def f Let_def)
next
  assume "layout_of q = Strided"
  then obtain a where "q = Array Strided a"
    by (cases q) auto
  then show "as_euler_angles rnd q = Inl ValueError"
    by (simp add: as_euler_angles_def as_float_array_strided)
qed

text \<open>
  The angles of \<open>(0, 0, -1, 0)\<close> are \<open>(-\<pi>, \<pi>, \<pi>)\<close>: the negation of the positive zero \<open>x\<close>
  is the negative zero, and \<open>atan2(-0, -1)\<close> is \<open>-\<pi>\<close>. The angles of \<open>(1, 0, 0, 1)\<close> are
  \<open>(\<pi>/4, 0, \<pi>/4)\<close>.
\<close>

lemma pi_moderate: "\<bar>pi\<bar> \<le> 10 ^ 20" "\<bar>pi / 2\<bar> \<le> 10 ^ 20" "\<bar>pi / 4\<bar> \<le> 10 ^ 20"
  using pi_gt_zero pi_less_4 by simp_all

lemma as_euler_angles_formulas_examples:
  "as_euler_angles (\<lambda>r. r)
     (Array Contiguous \<lparr>shape = [2], flat =
        [quaternion (Finite 0) (Finite 0) (Finite (- 1)) (Finite 0),
         quaternion (Finite 1) (Finite 0) (Finite 0) (Finite 1)]\<rparr>) =
     Inr \<lparr>shape = [2, 3],
          flat = [Finite (- pi), Finite pi, Finite pi,
                  Finite (pi / 4), Finite 0, Finite (pi / 4)]\<rparr>"
proof -
  have p: "rounded (\<lambda>r. r) pi = Finite pi" "rounded (\<lambda>r. r) (pi / 2) = Finite (pi / 2)"
    "rounded (\<lambda>r. r) (pi / 4) = Finite (pi / 4)"
    by (simp_all only: rounded_exact pi_moderate)
  have a1: "farctan2 (\<lambda>r. r) (Finite 0) (Finite 0) = Finite 0"
    and a2: "farctan2 (\<lambda>r. r) NegZero (Finite (- 1)) = Finite (- pi)"
    and a3: "farctan2 (\<lambda>r. r) (Finite 1) (Finite 1) = Finite (pi / 4)"
    and a4: "farctan2 (\<lambda>r. r) NegZero (Finite 0) = NegZero"
    by (simp_all add: farctan2_def signed_zero_def with_sign_def p angle_def arctan_one)
  have s1: "fadd (\<lambda>r. r) (Finite 0) (Finite (- pi)) = Finite (- pi)"
    and s2: "fsub (\<lambda>r. r) (Finite 0) (Finite (- pi)) = Finite pi"
    and s3: "fadd (\<lambda>r. r) (Finite (pi / 4)) NegZero = Finite (pi / 4)"
    and s4: "fsub (\<lambda>r. r) (Finite (pi / 4)) NegZero = Finite (pi / 4)"
    using pi_moderate
    by (simp_all add: fsub_def fadd_def signed_zero_def rounded_exact)
  have n1: "qnorm (\<lambda>r. r) (quaternion (Finite 0) (Finite 0) (Finite (- 1)) (Finite 0)) = Finite 1"
    and n2: "qnorm (\<lambda>r. r) (quaternion (Finite 1) (Finite 0) (Finite 0) (Finite 1)) = Finite 2"
    by (simp_all add: qnorm_def exact fmul_exact_nonzero)
  have b1: "fmul (\<lambda>r. r) (Finite 2)
              (farccos (\<lambda>r. r) (fsqrt (\<lambda>r. r) (Finite 0))) = Finite pi"
    using pi_moderate
    by (simp add: exact fsqrt_def farccos_def p fmul_exact_nonzero)
  have b2: "fmul (\<lambda>r. r) (Finite 2)
              (farccos (\<lambda>r. r) (fsqrt (\<lambda>r. r) (Finite 1))) = Finite 0"
    by (simp add: exact fsqrt_def farccos_def rounded_exact)
  have e1: "spec_euler (\<lambda>r. r) (quaternion (Finite 0) (Finite 0) (Finite (- 1)) (Finite 0))
      = [Finite (- pi), Finite pi, Finite pi]"
    by (simp add: spec_euler_def n1 a1 a2 s1 s2 exact b1)
  have e2: "spec_euler (\<lambda>r. r) (quaternion (Finite 1) (Finite 0) (Finite 0) (Finite 1))
      = [Finite (pi / 4), Finite 0, Finite (pi / 4)]"
    by (simp add: spec_euler_def n2 a3 a4 s3 s4 exact b2)
  show ?thesis
    using as_euler_angles_formulas [of "Array Contiguous \<lparr>shape = [2], flat =
        [quaternion (Finite 0) (Finite 0) (Finite (- 1)) (Finite 0),
         quaternion (Finite 1) (Finite 0) (Finite 0) (Finite 1)]\<rparr>" "\<lambda>r. r"]
    by (simp add: e1 e2)
qed

text \<open>
  C8. The specification has the three formulas applied element by element to every array
  input, and the docstring takes a quaternion or an array of quaternions. For an array
  whose elements are not adjacent in memory the call raises a value error and returns no
  angle: the float view of the input is the one of \<^verbatim>\<open>as_float_array\<close>, which the host
  refuses for such an array (the defect shown for C4).
\<close>

theorem as_euler_angles_strided_fails:
  "as_euler_angles (\<lambda>r. r)
     (Array Strided \<lparr>shape = [2], flat =
        [quaternion (Finite 1) (Finite 0) (Finite 0) (Finite 0),
         quaternion (Finite 0) (Finite 0) (Finite 1) (Finite 0)]\<rparr>) = Inl ValueError"
  by (simp add: as_euler_angles_def as_float_array_strided)

section \<open>Properties of the vector rotation\<close>

lemma as_rotation_matrix_ValueError_iff:
  "as_rotation_matrix rnd eps q = Inl ValueError \<longleftrightarrow>
     layout_of q = Strided \<and> (\<forall>e \<in> set (elements q). \<not> is_zero (qnorm rnd e))"
proof (cases "\<exists>e \<in> set (elements q). is_zero (qnorm rnd e)")
  case True
  then show ?thesis
    using as_rotation_matrix_zero [of q rnd eps] by auto
next
  case False
  then have n: "\<forall>e \<in> set (elements q). \<not> is_zero (qnorm rnd e)" by simp
  show ?thesis
    using n as_rotation_matrix_nonzero [OF n, of eps] by (auto split: if_splits)
qed

lemma as_rotation_matrix_not_IndexError: "as_rotation_matrix rnd eps q \<noteq> Inl IndexError"
proof (cases "\<exists>e \<in> set (elements q). is_zero (qnorm rnd e)")
  case True
  then show ?thesis
    using as_rotation_matrix_zero [of q rnd eps] by auto
next
  case False
  then have n: "\<forall>e \<in> set (elements q). \<not> is_zero (qnorm rnd e)" by simp
  show ?thesis
    using as_rotation_matrix_nonzero [OF n, of eps] by (auto split: if_splits)
qed

lemma asarray_layout: "layout_of (asarray R) = layout_of R"
  by (cases R) auto

lemma asarray_elements: "elements (asarray R) = elements R"
  by (cases R) auto

lemma py_index_Some: "py_index xs i = Some k \<Longrightarrow> k < length xs"
  by (auto simp add: py_index_def split: if_splits)

lemma py_index_in_range:
  "- int (length xs) \<le> i \<Longrightarrow> i < int (length xs) \<Longrightarrow> \<exists>k. py_index xs i = Some k"
  by (auto simp add: py_index_def)

lemma py_index_None_iff:
  "py_index xs i = None \<longleftrightarrow> \<not> (- int (length xs) \<le> i \<and> i < int (length xs))"
  by (auto simp add: py_index_def)

lemma axis_length_Some_3:
  assumes "axis_length v axis = Some 3"
  shows "3 \<in> set (shape v)"
proof -
  from assms obtain k where k: "py_index (shape v) axis = Some k" and v: "shape v ! k = 3"
    by (auto simp add: axis_length_def)
  from k have "k < length (shape v)" by (rule py_index_Some)
  then have "shape v ! k \<in> set (shape v)" by (rule nth_mem)
  with v show ?thesis by simp
qed

lemma rotate_vectors_ValueError_iff:
  "rotate_vectors einsum rnd eps R v axis = Inl ValueError \<longleftrightarrow>
     length (shape v) < 1 \<or> 3 \<notin> set (shape v) \<or> (\<exists>n. axis_length v axis = Some n \<and> n \<noteq> 3) \<or>
     (axis_length v axis = Some 3 \<and> layout_of R = Strided \<and>
      (\<forall>e \<in> set (elements R). \<not> is_zero (qnorm rnd e)))"
proof (cases "length (shape v) < 1 \<or> 3 \<notin> set (shape v)")
  case True
  then show ?thesis
    by (auto simp add: rotate_vectors_def)
next
  case False
  show ?thesis
  proof (cases "py_index (shape v) axis")
    case None
    then show ?thesis
      using False by (simp add: rotate_vectors_def axis_length_def)
  next
    case (Some k)
    show ?thesis
    proof (cases "shape v ! k = 3")
      case True
      have "rotate_vectors einsum rnd eps R v axis = Inl ValueError \<longleftrightarrow>
          as_rotation_matrix rnd eps (asarray R) = Inl ValueError"
        using False Some True
        by (auto simp add: rotate_vectors_def Let_def split: sum.splits)
      then show ?thesis
        using False Some True
        by (simp add: as_rotation_matrix_ValueError_iff asarray_layout asarray_elements
            axis_length_def)
    next
      case n3: False
      then show ?thesis
        using False Some by (simp add: rotate_vectors_def axis_length_def)
    qed
  qed
qed

lemma rotate_vectors_IndexError_iff:
  "rotate_vectors einsum rnd eps R v axis = Inl IndexError \<longleftrightarrow>
     1 \<le> length (shape v) \<and> 3 \<in> set (shape v) \<and> axis_length v axis = None"
proof (cases "length (shape v) < 1 \<or> 3 \<notin> set (shape v)")
  case True
  then show ?thesis
    by (auto simp add: rotate_vectors_def)
next
  case False
  show ?thesis
  proof (cases "py_index (shape v) axis")
    case None
    then show ?thesis
      using False by (auto simp add: rotate_vectors_def axis_length_def Suc_le_eq)
  next
    case (Some k)
    have "rotate_vectors einsum rnd eps R v axis \<noteq> Inl IndexError"
      using False Some as_rotation_matrix_not_IndexError [of rnd eps "asarray R"]
      by (auto simp add: rotate_vectors_def Let_def split: sum.splits)
    then show ?thesis
      using Some by (simp add: axis_length_def)
  qed
qed

text \<open>
  C9. The specification has the value error exactly when \<open>v\<close> has no dimension or the
  selected axis of \<open>v\<close> does not have length three. That fails for an axis out of range:
  for a vector array of shape \<open>(3,)\<close> and \<open>axis = 1\<close> there is no selected axis of length
  three, and the source raises an index error at \<^verbatim>\<open>v.shape[axis]\<close>, not a value error.
\<close>

theorem rotate_vectors_axis_out_of_range:
  "rotate_vectors (\<lambda>m ma v va mva. m) (\<lambda>r. r) (Finite (1 / 2))
       (Scalar (quaternion (Finite 1) (Finite 0) (Finite 0) (Finite 0)))
       \<lparr>shape = [3], flat = [Finite 1, Finite 2, Finite 3]\<rparr> 1
     = Inl IndexError \<and>
   \<not> (rotate_vectors (\<lambda>m ma v va mva. m) (\<lambda>r. r) (Finite (1 / 2))
         (Scalar (quaternion (Finite 1) (Finite 0) (Finite 0) (Finite 0)))
         \<lparr>shape = [3], flat = [Finite 1, Finite 2, Finite 3]\<rparr> 1
        = Inl ValueError
      \<longleftrightarrow> length (shape \<lparr>shape = [3], flat = [Finite 1, Finite 2, Finite 3]\<rparr>) < 1
         \<or> axis_length \<lparr>shape = [3], flat = [Finite 1, Finite 2, Finite 3]\<rparr> 1 \<noteq> Some 3)"
  by (simp add: rotate_vectors_def axis_length_def py_index_def)

text \<open>
  C9, amended. For quaternions \<open>R\<close> that are a scalar or a contiguous array:

  \<^item> the value error is raised exactly when \<open>v\<close> has no dimension, or no axis of \<open>v\<close> has
    length three, or \<open>axis\<close> selects an axis whose length is not three;

  \<^item> for an axis in range, \<open>-v.ndim \<le> axis < v.ndim\<close>, or a zero-dimensional \<open>v\<close>, that is:
    exactly when \<open>v\<close> has no dimension or the selected axis does not have length three.

  It is raised by the checks on \<open>v\<close>, before any rotation matrix is computed. Whatever
  \<open>R\<close> is, the index error is raised exactly when \<open>v\<close> has a dimension, some axis of \<open>v\<close> has
  length three and \<open>axis\<close> is out of range.
\<close>

theorem rotate_vectors_value_error:
  "(layout_of R = Contiguous \<longrightarrow>
      (rotate_vectors einsum rnd eps R v axis = Inl ValueError \<longleftrightarrow>
         length (shape v) < 1 \<or> 3 \<notin> set (shape v) \<or>
         (\<exists>n. axis_length v axis = Some n \<and> n \<noteq> 3))) \<and>
   (layout_of R = Contiguous \<and>
    (length (shape v) = 0 \<or> (- int (length (shape v)) \<le> axis \<and> axis < int (length (shape v)))) \<longrightarrow>
      (rotate_vectors einsum rnd eps R v axis = Inl ValueError \<longleftrightarrow>
         length (shape v) < 1 \<or> axis_length v axis \<noteq> Some 3)) \<and>
   (rotate_vectors einsum rnd eps R v axis = Inl IndexError \<longleftrightarrow>
      1 \<le> length (shape v) \<and> 3 \<in> set (shape v) \<and>
      \<not> (- int (length (shape v)) \<le> axis \<and> axis < int (length (shape v))))"
proof (intro conjI impI)
  assume "layout_of R = Contiguous"
  then show "rotate_vectors einsum rnd eps R v axis = Inl ValueError \<longleftrightarrow>
      length (shape v) < 1 \<or> 3 \<notin> set (shape v) \<or> (\<exists>n. axis_length v axis = Some n \<and> n \<noteq> 3)"
    by (simp add: rotate_vectors_ValueError_iff)
next
  show "rotate_vectors einsum rnd eps R v axis = Inl IndexError \<longleftrightarrow>
      1 \<le> length (shape v) \<and> 3 \<in> set (shape v) \<and>
      \<not> (- int (length (shape v)) \<le> axis \<and> axis < int (length (shape v)))"
    by (simp only: rotate_vectors_IndexError_iff axis_length_def option.map_disc_iff
        py_index_None_iff)
next
  assume a: "layout_of R = Contiguous \<and>
    (length (shape v) = 0 \<or> (- int (length (shape v)) \<le> axis \<and> axis < int (length (shape v))))"
  show "rotate_vectors einsum rnd eps R v axis = Inl ValueError \<longleftrightarrow>
      length (shape v) < 1 \<or> axis_length v axis \<noteq> Some 3"
  proof (cases "length (shape v) = 0")
    case True
    then show ?thesis by (simp add: rotate_vectors_def)
  next
    case False
    with a obtain k where k: "py_index (shape v) axis = Some k"
      using py_index_in_range [of "shape v" axis] by auto
    then have "k < length (shape v)" by (rule py_index_Some)
    then have "shape v ! k = 3 \<Longrightarrow> 3 \<in> set (shape v)"
      using nth_mem by metis
    then show ?thesis
      using False k a
      by (auto simp add: rotate_vectors_ValueError_iff axis_length_def)
  qed
qed

theorem rotate_vectors_value_error_witness:
  "layout_of (Scalar (quaternion (Finite 1) (Finite 0) (Finite 0) (Finite 0))) = Contiguous \<and>
   (- int (length (shape \<lparr>shape = [2, 3], flat = map Finite [1, 2, 3, 4, 5, 6]\<rparr>)) \<le> - 1 \<and>
    - 1 < int (length (shape \<lparr>shape = [2, 3], flat = map Finite [1, 2, 3, 4, 5, 6]\<rparr>))) \<and>
   rotate_vectors (\<lambda>m ma v va mva. m) (\<lambda>r. r) (Finite (1 / 2))
     (Scalar (quaternion (Finite 1) (Finite 0) (Finite 0) (Finite 0)))
     \<lparr>shape = [2, 3], flat = map Finite [1, 2, 3, 4, 5, 6]\<rparr> (- 1) \<noteq> Inl ValueError \<and>
   rotate_vectors (\<lambda>m ma v va mva. m) (\<lambda>r. r) (Finite (1 / 2))
     (Scalar (quaternion (Finite 1) (Finite 0) (Finite 0) (Finite 0)))
     \<lparr>shape = [2, 3], flat = map Finite [1, 2, 3, 4, 5, 6]\<rparr> 0 = Inl ValueError \<and>
   rotate_vectors (\<lambda>m ma v va mva. m) (\<lambda>r. r) (Finite (1 / 2))
     (Scalar (quaternion (Finite 1) (Finite 0) (Finite 0) (Finite 0)))
     \<lparr>shape = [2, 3], flat = map Finite [1, 2, 3, 4, 5, 6]\<rparr> 2 = Inl IndexError"
  using rotate_vectors_value_error [of
      "Scalar (quaternion (Finite 1) (Finite 0) (Finite 0) (Finite 0))"
      "\<lambda>m ma v va mva. m" "\<lambda>r. r" "Finite (1 / 2)"
      "\<lparr>shape = [2, 3], flat = map Finite [1, 2, 3, 4, 5, 6]\<rparr>" "- 1"]
    rotate_vectors_value_error [of
      "Scalar (quaternion (Finite 1) (Finite 0) (Finite 0) (Finite 0))"
      "\<lambda>m ma v va mva. m" "\<lambda>r. r" "Finite (1 / 2)"
      "\<lparr>shape = [2, 3], flat = map Finite [1, 2, 3, 4, 5, 6]\<rparr>" 0]
    rotate_vectors_value_error [of
      "Scalar (quaternion (Finite 1) (Finite 0) (Finite 0) (Finite 0))"
      "\<lambda>m ma v va mva. m" "\<lambda>r. r" "Finite (1 / 2)"
      "\<lparr>shape = [2, 3], flat = map Finite [1, 2, 3, 4, 5, 6]\<rparr>" 2]
  by (simp add: axis_length_def py_index_def)

section \<open>Properties of the tolerant comparison\<close>

















end
